theory Spec2Isabelle
  imports Complex_Main "HOL-Library.Sublist"
begin

section \<open>Python values\<close>

text \<open>
  The pipeline computes with Python and numpy floats. A float is read as the real number
  it denotes, or as one of the three special values that the code can meet: the two
  infinities and NaN (pandas' marker of a missing cell). Rounding error, overflow and the
  sign of zero are not modelled; comparisons with NaN are false, as in Python.
\<close>

datatype pyfloat = Fin real | PInf | NInf | NaN

datatype py_error = KeyError | IndexError | TypeError | AttributeError

fun fneg :: "pyfloat \<Rightarrow> pyfloat" where
  "fneg (Fin a) = Fin (- a)"
| "fneg PInf = NInf"
| "fneg NInf = PInf"
| "fneg NaN = NaN"

fun fadd :: "pyfloat \<Rightarrow> pyfloat \<Rightarrow> pyfloat" where
  "fadd NaN _ = NaN"
| "fadd _ NaN = NaN"
| "fadd (Fin a) (Fin b) = Fin (a + b)"
| "fadd PInf NInf = NaN"
| "fadd NInf PInf = NaN"
| "fadd PInf _ = PInf"
| "fadd _ PInf = PInf"
| "fadd NInf _ = NInf"
| "fadd _ NInf = NInf"

definition fsub :: "pyfloat \<Rightarrow> pyfloat \<Rightarrow> pyfloat" where
  "fsub a b = fadd a (fneg b)"

text \<open>The infinity of a given sign, for the infinite products and quotients.\<close>

definition signed_inf :: "bool \<Rightarrow> pyfloat" where
  "signed_inf positive = (if positive then PInf else NInf)"

fun fmul :: "pyfloat \<Rightarrow> pyfloat \<Rightarrow> pyfloat" where
  "fmul NaN _ = NaN"
| "fmul _ NaN = NaN"
| "fmul (Fin a) (Fin b) = Fin (a * b)"
| "fmul (Fin a) PInf = (if a = 0 then NaN else signed_inf (0 < a))"
| "fmul (Fin a) NInf = (if a = 0 then NaN else signed_inf (a < 0))"
| "fmul PInf (Fin b) = (if b = 0 then NaN else signed_inf (0 < b))"
| "fmul NInf (Fin b) = (if b = 0 then NaN else signed_inf (b < 0))"
| "fmul PInf PInf = PInf"
| "fmul PInf NInf = NInf"
| "fmul NInf PInf = NInf"
| "fmul NInf NInf = PInf"

text \<open>Division as numpy does it: dividing by zero gives an infinity (NaN for 0/0) and
  raises nothing. Every division of the pipeline by a plain Python number is guarded
  against a zero divisor or has a constant divisor.\<close>

fun fdiv :: "pyfloat \<Rightarrow> pyfloat \<Rightarrow> pyfloat" where
  "fdiv NaN _ = NaN"
| "fdiv _ NaN = NaN"
| "fdiv (Fin a) (Fin b) =
     (if b = 0 then (if a = 0 then NaN else signed_inf (0 < a)) else Fin (a / b))"
| "fdiv (Fin a) PInf = Fin 0"
| "fdiv (Fin a) NInf = Fin 0"
| "fdiv PInf (Fin b) = signed_inf (0 \<le> b)"
| "fdiv NInf (Fin b) = signed_inf (b < 0)"
| "fdiv PInf PInf = NaN"
| "fdiv PInf NInf = NaN"
| "fdiv NInf PInf = NaN"
| "fdiv NInf NInf = NaN"

fun flt :: "pyfloat \<Rightarrow> pyfloat \<Rightarrow> bool" where
  "flt NaN _ = False"
| "flt _ NaN = False"
| "flt (Fin a) (Fin b) = (a < b)"
| "flt (Fin a) PInf = True"
| "flt (Fin a) NInf = False"
| "flt PInf _ = False"
| "flt NInf (Fin b) = True"
| "flt NInf PInf = True"
| "flt NInf NInf = False"

fun feq :: "pyfloat \<Rightarrow> pyfloat \<Rightarrow> bool" where
  "feq (Fin a) (Fin b) = (a = b)"
| "feq PInf PInf = True"
| "feq NInf NInf = True"
| "feq _ _ = False"

definition fgt :: "pyfloat \<Rightarrow> pyfloat \<Rightarrow> bool" where
  "fgt a b = flt b a"

definition fle :: "pyfloat \<Rightarrow> pyfloat \<Rightarrow> bool" where
  "fle a b = (flt a b \<or> feq a b)"

definition fge :: "pyfloat \<Rightarrow> pyfloat \<Rightarrow> bool" where
  "fge a b = fle b a"

fun fabs :: "pyfloat \<Rightarrow> pyfloat" where
  "fabs (Fin a) = Fin \<bar>a\<bar>"
| "fabs PInf = PInf"
| "fabs NInf = PInf"
| "fabs NaN = NaN"

text \<open>\<open>round(x, 2)\<close>: to the nearest multiple of 0.01, a tie going to the even one.\<close>

definition round_half_even :: "real \<Rightarrow> int" where
  "round_half_even x =
     (let n = \<lfloor>x\<rfloor>; d = x - of_int n
      in if d < 1 / 2 then n else if 1 / 2 < d then n + 1
         else if even n then n else n + 1)"

definition round2 :: "real \<Rightarrow> real" where
  "round2 x = of_int (round_half_even (x * 100)) / 100"

fun fround2 :: "pyfloat \<Rightarrow> pyfloat" where
  "fround2 (Fin a) = Fin (round2 a)"
| "fround2 x = x"

text \<open>Whether a float agrees with a quoted decimal up to a tolerance; NaN and the
  infinities agree with nothing.\<close>

definition close_to :: "pyfloat \<Rightarrow> real \<Rightarrow> real \<Rightarrow> bool" where
  "close_to x c tol = (case x of Fin r \<Rightarrow> \<bar>r - c\<bar> \<le> tol | _ \<Rightarrow> False)"

text \<open>A \<^verbatim>\<open>try\<close> block is a computation that ends in an exception (\<open>Inl\<close>) or a value
  (\<open>Inr\<close>); \<open>and_then\<close> runs the next statement unless an exception is under way.\<close>

definition and_then :: "py_error + 'a \<Rightarrow> ('a \<Rightarrow> py_error + 'b) \<Rightarrow> py_error + 'b" where
  "and_then r f = (case r of Inl e \<Rightarrow> Inl e | Inr v \<Rightarrow> f v)"

section \<open>Financial statements and the Altman Z-Score (setup.py)\<close>

text \<open>
  A statement table (a pandas DataFrame of yfinance): the rows by their label
  (\<^verbatim>\<open>df.index\<close>), each with one cell per reporting period, the most recent first. Labels
  are taken to be unique; a table is rectangular. \<^verbatim>\<open>df.empty\<close> holds when the table has
  no row or no column.
\<close>

type_synonym frame = "(string \<times> pyfloat list) list"

definition df_empty :: "frame \<Rightarrow> bool" where
  "df_empty df = list_all (\<lambda>r. snd r = []) df"

text \<open>\<open>get_val\<close>: the first of the candidate labels that the table has decides;
  \<^verbatim>\<open>df.loc[k].iloc[0]\<close> raises IndexError on a row without cells.\<close>

fun get_val :: "frame \<Rightarrow> string list \<Rightarrow> py_error + pyfloat" where
  "get_val df [] = Inr (Fin 0)"
| "get_val df (k # keys) =
     (case map_of df k of
        None \<Rightarrow> get_val df keys
      | Some row \<Rightarrow> (case row of [] \<Rightarrow> Inl IndexError | c # _ \<Rightarrow> Inr c))"

text \<open>The body of the \<^verbatim>\<open>try\<close> block of \<open>calculate_altman_z_yfinance\<close>.\<close>

definition altman_z_body :: "frame \<Rightarrow> frame \<Rightarrow> pyfloat \<Rightarrow> py_error + pyfloat" where
  "altman_z_body bs fin market_cap =
     and_then (get_val bs [''Total Assets'']) (\<lambda>total_assets.
     and_then (get_val bs [''Total Liabilities Net Minority Interest'', ''Total Liabilities''])
       (\<lambda>total_liab.
     and_then (get_val bs [''Current Assets'', ''Total Current Assets'']) (\<lambda>current_assets.
     and_then (get_val bs [''Current Liabilities'', ''Total Current Liabilities''])
       (\<lambda>current_liab.
     and_then (get_val bs [''Retained Earnings'']) (\<lambda>retained_earnings.
     and_then (get_val fin [''EBIT'', ''Operating Income'']) (\<lambda>ebit.
     and_then (get_val fin [''Total Revenue'']) (\<lambda>total_revenue.
       if feq total_assets (Fin 0) \<or> feq total_liab (Fin 0) then Inr (Fin 0)
       else
         let A = fdiv (fsub current_assets current_liab) total_assets;
             B = fdiv retained_earnings total_assets;
             C = fdiv ebit total_assets;
             D = fdiv market_cap total_liab;
             E = fdiv total_revenue total_assets
         in Inr (fadd (fadd (fadd (fadd (fmul (Fin 1.2) A) (fmul (Fin 1.4) B))
                   (fmul (Fin 3.3) C)) (fmul (Fin 0.6) D)) (fmul (Fin 1.0) E)))))))))"

definition calculate_altman_z_yfinance :: "frame \<Rightarrow> frame \<Rightarrow> pyfloat \<Rightarrow> pyfloat" where
  "calculate_altman_z_yfinance bs fin market_cap =
     (case altman_z_body bs fin market_cap of Inl e \<Rightarrow> Fin 0 | Inr z \<Rightarrow> z)"

text \<open>The sample company of the specification: total assets 1000, total liabilities 600,
  current assets 400, current liabilities 200, retained earnings 100, EBIT 150, revenue
  900 (market capitalisation 2000 is the third argument).\<close>

definition sample_bs :: frame where
  "sample_bs =
     [(''Total Assets'', [Fin 1000]),
      (''Total Liabilities Net Minority Interest'', [Fin 600]),
      (''Current Assets'', [Fin 400]),
      (''Current Liabilities'', [Fin 200]),
      (''Retained Earnings'', [Fin 100])]"

definition sample_fin :: frame where
  "sample_fin = [(''EBIT'', [Fin 150]), (''Total Revenue'', [Fin 900])]"

section \<open>Bulk Screener (filters.py)\<close>

text \<open>
  What the bulk quote provider returns is parsed JSON: null, a number, a string or an
  object. JSON numbers are finite. An object is the list of its members, with distinct
  keys. (Booleans and arrays do not occur in the fields that the screener reads.)
\<close>

datatype json = JNull | JNum real | JStr string | JObj "(string \<times> json) list"

record screen_config =
  MIN_PRICE :: real
  MIN_VOLUME :: real
  MIN_CAP :: real
  MIN_CURRENT_RATIO :: real
  EXCLUDED_SECTORS :: "string list"
  MAX_PE_RATIO :: real

text \<open>Every table of the pipeline has a \<open>Ticker\<close> column. A row of the screener's
  output table adds six fields: \<open>Sector\<close>, \<open>Price\<close> and \<open>Curr_Ratio\<close> are the provider's
  values as they were read; the other three are rounded numbers.\<close>

record table_row =
  Ticker :: string

record survivor = table_row +
  Sector :: json
  Price :: json
  Op_Margin_pct :: real
  PE :: real
  Curr_Ratio :: json
  Mkt_Cap_B :: real

text \<open>\<^verbatim>\<open>d.get(k, default)\<close>: only a dictionary has the method.\<close>

fun py_get :: "json \<Rightarrow> string \<Rightarrow> json \<Rightarrow> py_error + json" where
  "py_get (JObj kvs) k d = Inr (case map_of kvs k of None \<Rightarrow> d | Some v \<Rightarrow> v)"
| "py_get _ k d = Inl AttributeError"

text \<open>Ordering comparisons of a provider value with a number of the configuration:
  Python 3 raises TypeError unless the value is a number.\<close>

fun py_lt :: "json \<Rightarrow> real \<Rightarrow> py_error + bool" where
  "py_lt (JNum a) b = Inr (a < b)"
| "py_lt _ b = Inl TypeError"

fun py_gt :: "json \<Rightarrow> real \<Rightarrow> py_error + bool" where
  "py_gt (JNum a) b = Inr (b < a)"
| "py_gt _ b = Inl TypeError"

fun py_le :: "json \<Rightarrow> real \<Rightarrow> py_error + bool" where
  "py_le (JNum a) b = Inr (a \<le> b)"
| "py_le _ b = Inl TypeError"

fun py_num :: "json \<Rightarrow> py_error + real" where
  "py_num (JNum a) = Inr a"
| "py_num _ = Inl TypeError"

fun py_truthy :: "json \<Rightarrow> bool" where
  "py_truthy JNull = False"
| "py_truthy (JNum a) = (a \<noteq> 0)"
| "py_truthy (JStr s) = (s \<noteq> [])"
| "py_truthy (JObj kvs) = (kvs \<noteq> [])"

text \<open>\<^verbatim>\<open>x in s\<close> for strings: \<open>x\<close> occurs in \<open>s\<close> as a contiguous piece.\<close>

fun is_substring :: "string \<Rightarrow> string \<Rightarrow> bool" where
  "is_substring x [] = (x = [])"
| "is_substring x (c # s) = (prefix x (c # s) \<or> is_substring x s)"

text \<open>\<^verbatim>\<open>x in sector\<close>: a substring test on a string, a key test on a dictionary, and a
  TypeError on \<^verbatim>\<open>None\<close> or a number.\<close>

fun py_contains :: "json \<Rightarrow> string \<Rightarrow> py_error + bool" where
  "py_contains (JStr s) x = Inr (is_substring x s)"
| "py_contains (JObj kvs) x = Inr (x \<in> set (map fst kvs))"
| "py_contains _ x = Inl TypeError"

text \<open>\<^verbatim>\<open>any(x in sector for x in EXCLUDED_SECTORS)\<close>, which stops at the first hit.\<close>

fun any_excluded :: "string list \<Rightarrow> json \<Rightarrow> py_error + bool" where
  "any_excluded [] sec = Inr False"
| "any_excluded (x # xs) sec =
     and_then (py_contains sec x) (\<lambda>hit. if hit then Inr True else any_excluded xs sec)"

text \<open>The local variables of one ticker after the extraction (lines 60 to 92).\<close>

record quote_fields =
  price :: json
  vol :: json
  cap :: json
  sector :: json
  curr_ratio :: json
  op_margins :: json
  pe :: json

definition none_to_zero :: "json \<Rightarrow> json" where
  "none_to_zero v = (if v = JNull then JNum 0 else v)"

text \<open>\<^verbatim>\<open>data.get(module, {}).get(key, default)\<close>.\<close>

definition get2 :: "json \<Rightarrow> string \<Rightarrow> string \<Rightarrow> json \<Rightarrow> py_error + json" where
  "get2 data module_name key default_value =
     and_then (py_get data module_name (JObj [])) (\<lambda>m. py_get m key default_value)"

definition extract_fields :: "json \<Rightarrow> py_error + quote_fields" where
  "extract_fields data =
     and_then (get2 data ''price'' ''regularMarketPrice'' (JNum 0)) (\<lambda>price_read.
     and_then (get2 data ''summaryDetail'' ''averageVolume'' (JNum 0)) (\<lambda>vol_read.
     and_then (if vol_read = JNull \<or> vol_read = JNum 0
               then get2 data ''price'' ''averageDailyVolume10Day'' (JNum 0)
               else Inr vol_read) (\<lambda>vol_used.
     and_then (get2 data ''price'' ''marketCap'' (JNum 0)) (\<lambda>cap_read.
     and_then (get2 data ''summaryProfile'' ''sector'' (JStr ''Unknown'')) (\<lambda>sector_read.
     and_then (py_get data ''financialData'' (JObj [])) (\<lambda>fin_data.
     and_then (py_get fin_data ''currentRatio'' (JNum 0)) (\<lambda>curr_ratio_read.
     and_then (py_get fin_data ''operatingMargins'' (JNum 0)) (\<lambda>op_margins_read.
     and_then (get2 data ''summaryDetail'' ''trailingPE'' JNull) (\<lambda>pe_read.
       Inr \<lparr>price = none_to_zero price_read,
            vol = vol_used,
            cap = none_to_zero cap_read,
            sector = sector_read,
            curr_ratio = none_to_zero curr_ratio_read,
            op_margins = none_to_zero op_margins_read,
            pe = pe_read\<rparr>)))))))))"

text \<open>The seven filters in the order of the source; \<open>Inr False\<close> is a \<^verbatim>\<open>continue\<close>.\<close>

definition passes_filters :: "screen_config \<Rightarrow> quote_fields \<Rightarrow> py_error + bool" where
  "passes_filters cfg f =
     and_then (if pe f \<noteq> JNull then py_gt (pe f) (MAX_PE_RATIO cfg) else Inr False)
       (\<lambda>overvalued. if overvalued then Inr False else
     and_then (py_lt (price f) (MIN_PRICE cfg)) (\<lambda>penny. if penny then Inr False else
     and_then (py_lt (cap f) (MIN_CAP cfg)) (\<lambda>small. if small then Inr False else
     and_then (py_lt (vol f) (MIN_VOLUME cfg)) (\<lambda>illiquid. if illiquid then Inr False else
     and_then (any_excluded (EXCLUDED_SECTORS cfg) (sector f))
       (\<lambda>excluded. if excluded then Inr False else
     and_then (py_lt (curr_ratio f) (MIN_CURRENT_RATIO cfg))
       (\<lambda>weak. if weak then Inr False else
     and_then (py_le (op_margins f) 0) (\<lambda>unprofitable. Inr (\<not> unprofitable))))))))"

definition make_survivor :: "string \<Rightarrow> quote_fields \<Rightarrow> py_error + survivor" where
  "make_survivor symbol f =
     and_then (py_num (op_margins f)) (\<lambda>m.
     and_then (if py_truthy (pe f) then and_then (py_num (pe f)) (\<lambda>p. Inr (round2 p))
               else Inr 0) (\<lambda>pe_rounded.
     and_then (py_num (cap f)) (\<lambda>c.
       Inr \<lparr>Ticker = symbol,
            Sector = sector f,
            Price = price f,
            Op_Margin_pct = round2 (m * 100),
            PE = pe_rounded,
            Curr_Ratio = curr_ratio f,
            Mkt_Cap_B = round2 (c / 1000000000)\<rparr>)))"

text \<open>The inner \<^verbatim>\<open>try\<close> block for one symbol, and the handling around it: a string in
  place of the data, or any exception, drops the symbol.\<close>

definition screen_symbol_body ::
  "screen_config \<Rightarrow> string \<Rightarrow> json \<Rightarrow> py_error + survivor option" where
  "screen_symbol_body cfg symbol data =
     and_then (extract_fields data) (\<lambda>f.
     and_then (passes_filters cfg f) (\<lambda>passed.
       if passed then and_then (make_survivor symbol f) (\<lambda>r. Inr (Some r))
       else Inr None))"

definition screen_symbol :: "screen_config \<Rightarrow> string \<Rightarrow> json \<Rightarrow> survivor option" where
  "screen_symbol cfg symbol data =
     (case data of
        JStr msg \<Rightarrow> None
      | _ \<Rightarrow> (case screen_symbol_body cfg symbol data of Inl e \<Rightarrow> None | Inr r \<Rightarrow> r))"

text \<open>The bulk fetch of one batch: it fails as a whole, or gives the per-symbol data in
  the order of \<^verbatim>\<open>df_modules.items()\<close>.\<close>

datatype batch = BatchError | Modules "(string \<times> json) list"

text \<open>\<^verbatim>\<open>[tickers[i : i + chunk_size] for i in range(0, len(tickers), chunk_size)]\<close>:
  consecutive batches of \<open>chunk_size\<close> tickers, the last one possibly shorter.\<close>

function chunked :: "nat \<Rightarrow> 'a list \<Rightarrow> 'a list list" where
  "chunked n xs = (if n = 0 \<or> xs = [] then [] else take n xs # chunked n (drop n xs))"
  by pat_completeness auto
termination
  by (relation "measure (\<lambda>(n, xs). length xs)") auto

definition screen_chunk ::
  "screen_config \<Rightarrow> (string list \<Rightarrow> batch) \<Rightarrow> string list \<Rightarrow> survivor list" where
  "screen_chunk cfg get_modules chunk =
     (case get_modules chunk of
        BatchError \<Rightarrow> []
      | Modules items \<Rightarrow>
          List.map_filter (\<lambda>(symbol, data). screen_symbol cfg symbol data) items)"

definition get_initial_survivors ::
  "string list \<Rightarrow> screen_config \<Rightarrow> (string list \<Rightarrow> batch) \<Rightarrow> survivor list" where
  "get_initial_survivors tickers cfg get_modules =
     concat (map (screen_chunk cfg get_modules) (chunked 500 tickers))"

subsection \<open>The filter predicate in the words of the specification\<close>

text \<open>
  The specification's reading of a per-ticker bundle, to be compared with
  \<open>screen_symbol\<close>: a field that is absent or null counts as 0 (as "Unknown" for the
  sector), the average volume falls back to the 10-day average when the primary one is
  zero or absent, and the ticker survives when all seven predicates hold.
\<close>

definition field_of :: "json \<Rightarrow> string \<Rightarrow> string \<Rightarrow> json option" where
  "field_of data module_name key =
     (case data of
        JObj kvs \<Rightarrow>
          (case map_of kvs module_name of Some (JObj ms) \<Rightarrow> map_of ms key | _ \<Rightarrow> None)
      | _ \<Rightarrow> None)"

definition spec_num :: "json option \<Rightarrow> real" where
  "spec_num v = (case v of Some (JNum r) \<Rightarrow> r | _ \<Rightarrow> 0)"

definition spec_sector :: "json option \<Rightarrow> string" where
  "spec_sector v = (case v of Some (JStr s) \<Rightarrow> s | _ \<Rightarrow> ''Unknown'')"

definition spec_avg_volume :: "json \<Rightarrow> real" where
  "spec_avg_volume data =
     (let primary = spec_num (field_of data ''summaryDetail'' ''averageVolume'')
      in if primary = 0 then spec_num (field_of data ''price'' ''averageDailyVolume10Day'')
         else primary)"

definition spec_pe_ok :: "screen_config \<Rightarrow> json \<Rightarrow> bool" where
  "spec_pe_ok cfg data =
     (case field_of data ''summaryDetail'' ''trailingPE'' of
        Some (JNum p) \<Rightarrow> p \<le> MAX_PE_RATIO cfg
      | _ \<Rightarrow> True)"

definition spec_survives :: "screen_config \<Rightarrow> json \<Rightarrow> bool" where
  "spec_survives cfg data =
     (spec_pe_ok cfg data
      \<and> MIN_PRICE cfg \<le> spec_num (field_of data ''price'' ''regularMarketPrice'')
      \<and> MIN_CAP cfg \<le> spec_num (field_of data ''price'' ''marketCap'')
      \<and> MIN_VOLUME cfg \<le> spec_avg_volume data
      \<and> \<not> list_ex (\<lambda>x. is_substring x (spec_sector (field_of data ''summaryProfile'' ''sector'')))
             (EXCLUDED_SECTORS cfg)
      \<and> MIN_CURRENT_RATIO cfg \<le> spec_num (field_of data ''financialData'' ''currentRatio'')
      \<and> 0 < spec_num (field_of data ''financialData'' ''operatingMargins''))"

text \<open>A bundle of the documented shape: a record whose four modules are records or
  absent, whose numeric fields are numbers, null or absent, and whose sector is a
  string, null or absent.\<close>

definition module_ok :: "json \<Rightarrow> string \<Rightarrow> bool" where
  "module_ok data module_name =
     (case data of
        JObj kvs \<Rightarrow>
          (case map_of kvs module_name of None \<Rightarrow> True | Some (JObj ms) \<Rightarrow> True | _ \<Rightarrow> False)
      | _ \<Rightarrow> False)"

definition number_ok :: "json option \<Rightarrow> bool" where
  "number_ok v = (case v of None \<Rightarrow> True | Some JNull \<Rightarrow> True | Some (JNum r) \<Rightarrow> True | _ \<Rightarrow> False)"

definition text_ok :: "json option \<Rightarrow> bool" where
  "text_ok v = (case v of None \<Rightarrow> True | Some JNull \<Rightarrow> True | Some (JStr s) \<Rightarrow> True | _ \<Rightarrow> False)"

definition typed_bundle :: "json \<Rightarrow> bool" where
  "typed_bundle data =
     (module_ok data ''price'' \<and> module_ok data ''summaryDetail''
      \<and> module_ok data ''summaryProfile'' \<and> module_ok data ''financialData''
      \<and> number_ok (field_of data ''price'' ''regularMarketPrice'')
      \<and> number_ok (field_of data ''summaryDetail'' ''averageVolume'')
      \<and> number_ok (field_of data ''price'' ''averageDailyVolume10Day'')
      \<and> number_ok (field_of data ''price'' ''marketCap'')
      \<and> text_ok (field_of data ''summaryProfile'' ''sector'')
      \<and> number_ok (field_of data ''financialData'' ''currentRatio'')
      \<and> number_ok (field_of data ''financialData'' ''operatingMargins'')
      \<and> number_ok (field_of data ''summaryDetail'' ''trailingPE''))"

text \<open>The two places where a null that the provider sent is read without being
  replaced: the sector, and the 10-day volume when it is consulted.\<close>

definition null_sector :: "json \<Rightarrow> bool" where
  "null_sector data = (field_of data ''summaryProfile'' ''sector'' = Some JNull)"

definition null_volume_fallback :: "json \<Rightarrow> bool" where
  "null_volume_fallback data =
     (spec_num (field_of data ''summaryDetail'' ''averageVolume'') = 0
      \<and> field_of data ''price'' ''averageDailyVolume10Day'' = Some JNull)"

text \<open>What the code reads for a field with a default, and the volume that it compares,
  in terms of \<open>field_of\<close>; both serve the comparison of \<open>screen_symbol\<close> with
  \<open>spec_survives\<close>.\<close>

definition field_or :: "json option \<Rightarrow> json \<Rightarrow> json" where
  "field_or v d = (case v of None \<Rightarrow> d | Some x \<Rightarrow> x)"

definition volume_read :: "json \<Rightarrow> json" where
  "volume_read data =
     (if spec_num (field_of data ''summaryDetail'' ''averageVolume'') = 0
      then field_or (field_of data ''price'' ''averageDailyVolume10Day'') (JNum 0)
      else JNum (spec_num (field_of data ''summaryDetail'' ''averageVolume'')))"

text \<open>Sample data: thresholds, and a bundle that meets every one of them.\<close>

definition sample_config :: screen_config where
  "sample_config =
     \<lparr>MIN_PRICE = 5, MIN_VOLUME = 100000, MIN_CAP = 1000000000, MIN_CURRENT_RATIO = 1,
      EXCLUDED_SECTORS = [''Financial''], MAX_PE_RATIO = 30\<rparr>"

definition sample_bundle :: "json \<Rightarrow> json \<Rightarrow> json \<Rightarrow> json" where
  "sample_bundle primary_volume ten_day_volume sector_value =
     JObj [(''price'', JObj [(''regularMarketPrice'', JNum 50),
                             (''marketCap'', JNum 5000000000),
                             (''averageDailyVolume10Day'', ten_day_volume)]),
           (''summaryDetail'', JObj [(''averageVolume'', primary_volume),
                                     (''trailingPE'', JNum 10)]),
           (''summaryProfile'', JObj [(''sector'', sector_value)]),
           (''financialData'', JObj [(''currentRatio'', JNum 2),
                                     (''operatingMargins'', JNum 0.2)])]"

text \<open>A provider that answers every symbol of a batch with the same healthy bundle, one
  that answers with a bundle whose profile module is an error message, and the healthy
  bundle itself.\<close>

definition healthy_bundle :: json where
  "healthy_bundle = sample_bundle (JNum 1000000) (JNum 900000) (JStr ''Technology'')"

definition sample_modules :: "string list \<Rightarrow> batch" where
  "sample_modules chunk = Modules (map (\<lambda>t. (t, healthy_bundle)) chunk)"

definition no_profile_bundle :: json where
  "no_profile_bundle =
     JObj [(''price'', JObj [(''regularMarketPrice'', JNum 50),
                             (''marketCap'', JNum 5000000000)]),
           (''summaryDetail'', JObj [(''averageVolume'', JNum 1000000),
                                     (''trailingPE'', JNum 10)]),
           (''summaryProfile'', JStr ''No fundamentals data found''),
           (''financialData'', JObj [(''currentRatio'', JNum 2),
                                     (''operatingMargins'', JNum 0.2)])]"

section \<open>Financial cache and tier classification (financial\_analysis.py)\<close>

datatype tier = Fortress | Strong | Risky

text \<open>A cache entry, and the \<open>metrics\<close> dictionary of one analysed ticker: the cache
  holds exactly the dictionaries that the analyser stores.\<close>

record metrics =
  timestamp :: real
  z_score :: pyfloat
  roic :: pyfloat
  int_cov :: pyfloat

text \<open>\<open>determine_tier_history\<close> is a closure of the analyser's loop over the two
  thresholds, which are parameters here.\<close>

definition determine_tier_history ::
  "real \<Rightarrow> real \<Rightarrow> metrics \<Rightarrow> bool \<Rightarrow> bool \<Rightarrow> tier" where
  "determine_tier_history MIN_INTEREST_COVERAGE MIN_ROIC m is_fortress_margin is_pos_margin =
     (let z_val = z_score m
      in if flt (int_cov m) (Fin MIN_INTEREST_COVERAGE) then Risky
         else if flt (roic m) (Fin MIN_ROIC) then Risky
         else if is_fortress_margin \<and> fge z_val (Fin 2.99) then Fortress
         else if is_pos_margin \<and> fge z_val (Fin 1.81) then Strong
         else Risky)"

text \<open>The freshness test of the loop:
  \<^verbatim>\<open>current_time - cached_data["timestamp"] < expiry_seconds\<close>.\<close>

definition is_fresh :: "metrics \<Rightarrow> real \<Rightarrow> real \<Rightarrow> bool" where
  "is_fresh cached_data current_time expiry_seconds =
     (current_time - timestamp cached_data < expiry_seconds)"

text \<open>The whole guard that makes the loop \<^verbatim>\<open>continue\<close> without fetching: the ticker has
  an entry, the entry is fresh, and its \<open>roic\<close> is the failure sentinel.\<close>

definition skip_cached :: "(string \<rightharpoonup> metrics) \<Rightarrow> string \<Rightarrow> real \<Rightarrow> real \<Rightarrow> bool" where
  "skip_cached cache ticker current_time expiry_seconds =
     (case cache ticker of
        None \<Rightarrow> False
      | Some cached_data \<Rightarrow>
          is_fresh cached_data current_time expiry_seconds
          \<and> feq (roic cached_data) (Fin (- 999)))"

section \<open>Deep Analyzer (financial\_analysis.py)\<close>

record deep_config =
  CACHE_EXPIRY_DAYS :: real
  FORTRESS_MARGIN_THRESHOLD :: real
  MIN_INTEREST_COVERAGE :: real
  MIN_ROIC :: real

text \<open>What \<^verbatim>\<open>yf.Ticker(ticker)\<close> gives: the fetch raises, or it returns the income
  statement and the balance sheet.\<close>

datatype statements = Unavailable | Statements frame frame

text \<open>A row of the analyser's output: the screener's fields and five new ones.\<close>

record analysis = survivor +
  Tier :: tier
  Z_Score :: pyfloat
  ROIC_pct :: pyfloat
  Avg_Margin_4Y :: pyfloat
  Int_Cov :: pyfloat

text \<open>
  The yearly margins, \<^verbatim>\<open>(op_income_history / revenue_history).dropna()\<close>. Both series
  are rows of the same table, so the division is cell by cell. When the table has
  neither an operating income nor an EBIT row, the stand-in \<^verbatim>\<open>pd.Series([0])\<close> shares no
  label with the revenue row, and the aligned quotient is NaN at every label of the two.
  A missing revenue row raises KeyError.
\<close>

definition dropna :: "pyfloat list \<Rightarrow> pyfloat list" where
  "dropna xs = filter (\<lambda>x. x \<noteq> NaN) xs"

definition series_mean :: "pyfloat list \<Rightarrow> pyfloat" where
  "series_mean xs = fdiv (foldl fadd (Fin 0) xs) (Fin (real (length xs)))"

definition yearly_margins :: "frame \<Rightarrow> py_error + pyfloat list" where
  "yearly_margins fin =
     (let op_income_history =
            (case map_of fin ''Operating Income'' of
               Some row \<Rightarrow> Some row
             | None \<Rightarrow> map_of fin ''EBIT'')
      in case map_of fin ''Total Revenue'' of
           None \<Rightarrow> Inl KeyError
         | Some revenue_history \<Rightarrow>
             Inr (dropna
               (case op_income_history of
                  Some op_income \<Rightarrow> map2 fdiv op_income revenue_history
                | None \<Rightarrow> replicate (Suc (length revenue_history)) NaN)))"

text \<open>
  The margin block (lines 102 to 129). \<open>avg_margin\<close> is a variable of the enclosing
  function, not of the loop body: it is \<open>None\<close> until some ticker's block assigns it, and
  it keeps its value from one ticker to the next. The block returns the variable after
  it, and the two flags.
\<close>

definition margin_block :: "real \<Rightarrow> frame \<Rightarrow> pyfloat option \<Rightarrow> pyfloat option \<times> bool \<times> bool" where
  "margin_block fortress_threshold fin avg_margin =
     (case yearly_margins fin of
        Inl e \<Rightarrow> (avg_margin, False, False)
      | Inr margins \<Rightarrow>
          if 0 < length margins
          then let avg = series_mean margins
               in (Some avg, fgt avg (Fin fortress_threshold), fgt avg (Fin 0))
          else (avg_margin, False, False))"

text \<open>\<open>get_item\<close> of the loop body is \<open>get_val\<close> of setup.py, word for word.\<close>

definition get_item :: "frame \<Rightarrow> string list \<Rightarrow> py_error + pyfloat" where
  "get_item df keys = get_val df keys"

definition interest_coverage :: "pyfloat \<Rightarrow> pyfloat \<Rightarrow> pyfloat" where
  "interest_coverage ebit int_exp_read =
     (let int_exp = fabs int_exp_read
      in if feq int_exp (Fin 0) then Fin 100 else fdiv ebit int_exp)"

definition return_on_capital :: "pyfloat \<Rightarrow> pyfloat \<Rightarrow> pyfloat \<Rightarrow> pyfloat" where
  "return_on_capital ebit total_assets curr_liab =
     (let invested_cap = fsub total_assets curr_liab
      in if fle invested_cap (Fin 0) then Fin 0 else fdiv ebit invested_cap)"

text \<open>The rest of the \<^verbatim>\<open>try\<close> block after the margin block (lines 131 to 204): the
  new cache entry and the output row, or the exception that ends the block.\<close>

definition standard_calculations ::
  "deep_config \<Rightarrow> real \<Rightarrow> survivor list \<Rightarrow> string \<Rightarrow> frame \<Rightarrow> frame
     \<Rightarrow> pyfloat option \<Rightarrow> bool \<Rightarrow> bool \<Rightarrow> py_error + metrics \<times> analysis" where
  "standard_calculations cfg current_time survivor_df ticker fin bs avg_margin
       is_fortress_margin is_positive_margin =
     and_then (get_item fin [''EBIT'', ''Operating Income'', ''Pretax Income'']) (\<lambda>ebit.
     and_then (get_item fin [''Interest Expense'', ''Interest Expense Non Operating''])
       (\<lambda>int_exp.
     and_then (get_item bs [''Total Assets'']) (\<lambda>total_assets.
     and_then (get_item bs [''Current Liabilities'', ''Total Current Liabilities''])
       (\<lambda>curr_liab.
     and_then (case find (\<lambda>r. Ticker r = ticker) survivor_df of
                 None \<Rightarrow> Inl IndexError
               | Some r \<Rightarrow> Inr r) (\<lambda>base_row.
       let int_cov_value = interest_coverage ebit int_exp;
           roic_value = return_on_capital ebit total_assets curr_liab;
           mkt_cap_raw = Fin (Mkt_Cap_B base_row * 1000000000);
           z = calculate_altman_z_yfinance bs fin mkt_cap_raw;
           m = \<lparr>timestamp = current_time, z_score = fround2 z, roic = roic_value,
                int_cov = fround2 int_cov_value\<rparr>;
           tier_value = determine_tier_history (MIN_INTEREST_COVERAGE cfg) (MIN_ROIC cfg) m
                          is_fortress_margin is_positive_margin
       in Inr (m,
            \<lparr>Ticker = ticker,
             Sector = Sector base_row,
             Price = Price base_row,
             Op_Margin_pct = Op_Margin_pct base_row,
             PE = PE base_row,
             Curr_Ratio = Curr_Ratio base_row,
             Mkt_Cap_B = Mkt_Cap_B base_row,
             Tier = tier_value,
             Z_Score = fround2 z,
             ROIC_pct = fround2 (fmul roic_value (Fin 100)),
             Avg_Margin_4Y =
               (case avg_margin of
                  Some avg \<Rightarrow> fround2 (fmul avg (Fin 100))
                | None \<Rightarrow> Fin 0),
             Int_Cov = fround2 int_cov_value\<rparr>))))))"

text \<open>The state that the loop carries: the cache, the rows collected so far, and the
  function-level variable \<open>avg_margin\<close>.\<close>

record deep_state =
  cache :: "string \<rightharpoonup> metrics"
  final_data :: "analysis list"
  avg_margin :: "pyfloat option"

text \<open>One turn of the loop. Every \<^verbatim>\<open>continue\<close> leaves the cache and the rows as they
  are; an exception after the margin block keeps what the block assigned.\<close>

definition analyze_ticker ::
  "deep_config \<Rightarrow> (string \<Rightarrow> statements) \<Rightarrow> real \<Rightarrow> survivor list
     \<Rightarrow> deep_state \<Rightarrow> string \<Rightarrow> deep_state" where
  "analyze_ticker cfg fetch current_time survivor_df st ticker =
     (if skip_cached (cache st) ticker current_time (CACHE_EXPIRY_DAYS cfg * 86400) then st
      else case fetch ticker of
        Unavailable \<Rightarrow> st
      | Statements fin bs \<Rightarrow>
          if df_empty fin \<or> df_empty bs then st
          else
            (case margin_block (FORTRESS_MARGIN_THRESHOLD cfg) fin (avg_margin st) of
               (avg_margin_now, is_fortress_margin, is_positive_margin) \<Rightarrow>
                 (case standard_calculations cfg current_time survivor_df ticker fin bs
                         avg_margin_now is_fortress_margin is_positive_margin of
                    Inl e \<Rightarrow> st\<lparr>avg_margin := avg_margin_now\<rparr>
                  | Inr (m, row) \<Rightarrow>
                      \<lparr>cache = (cache st)(ticker \<mapsto> m),
                       final_data = final_data st @ [row],
                       avg_margin = avg_margin_now\<rparr>)))"

text \<open>
  The whole run. \<open>cache_loaded\<close> is what \<open>load_cache\<close> returned and \<open>current_time\<close> what
  the clock said; the result is the output table and the cache handed to \<open>save_cache\<close>.
  The function arguments \<open>calculate_altman_z_yfinance\<close> and \<open>save_cache\<close> are the
  functions of these names in setup.py. The input table carries the screener's columns
  (a table without a \<open>Ticker\<close> column would raise before the loop).
\<close>

definition get_advanced_metrics ::
  "survivor list \<Rightarrow> deep_config \<Rightarrow> (string \<Rightarrow> statements) \<Rightarrow> real
     \<Rightarrow> (string \<rightharpoonup> metrics) \<Rightarrow> analysis list \<times> (string \<rightharpoonup> metrics)" where
  "get_advanced_metrics survivor_df cfg fetch current_time cache_loaded =
     (let tickers = map Ticker survivor_df;
          st = foldl (analyze_ticker cfg fetch current_time survivor_df)
                 \<lparr>cache = cache_loaded, final_data = [], avg_margin = None\<rparr> tickers
      in (final_data st, cache st))"

text \<open>
  Sample data for the analyser: thresholds, a screener row for a ticker, and a provider
  that knows five tickers. \<open>AAA\<close> has operating income 20 on revenue 100; \<open>BBB\<close> has no
  revenue row, so that its margin block raises; \<open>LSS\<close> has a negative EBIT and no interest
  expense row; for \<open>DDD\<close> the provider returns empty tables, and for every other ticker
  the fetch raises.
\<close>

definition sample_deep_config :: deep_config where
  "sample_deep_config =
     \<lparr>CACHE_EXPIRY_DAYS = 7, FORTRESS_MARGIN_THRESHOLD = 0.05,
      MIN_INTEREST_COVERAGE = 3, MIN_ROIC = 0.1\<rparr>"

definition sample_row :: "string \<Rightarrow> survivor" where
  "sample_row t =
     \<lparr>Ticker = t, Sector = JStr ''Technology'', Price = JNum 50, Op_Margin_pct = 20,
      PE = 10, Curr_Ratio = JNum 2, Mkt_Cap_B = 5\<rparr>"

definition healthy_fin :: frame where
  "healthy_fin =
     [(''Operating Income'', [Fin 20]), (''Total Revenue'', [Fin 100]),
      (''EBIT'', [Fin 20]), (''Interest Expense'', [Fin (- 2)])]"

definition no_revenue_fin :: frame where
  "no_revenue_fin = [(''EBIT'', [Fin 20]), (''Interest Expense'', [Fin (- 2)])]"

definition loss_fin :: frame where
  "loss_fin = [(''EBIT'', [Fin (- 50)]), (''Total Revenue'', [Fin 900])]"

definition sample_fetch :: "string \<Rightarrow> statements" where
  "sample_fetch t =
     (if t = ''AAA'' then Statements healthy_fin sample_bs
      else if t = ''BBB'' then Statements no_revenue_fin sample_bs
      else if t = ''LSS'' then Statements loss_fin sample_bs
      else if t = ''DDD'' then Statements [] []
      else Unavailable)"

section \<open>Trend Filter (setup.py)\<close>

text \<open>
  The price history of one ticker, as far as the filter reads it: the number of rows of
  its table, and its \<open>Close\<close> column when the table has one. In a download of several
  tickers all tables share the dates, and a day without a price is a NaN cell.
\<close>

datatype history = NoClose nat | Closes "pyfloat list"

fun hist_len :: "history \<Rightarrow> nat" where
  "hist_len (NoClose n) = n"
| "hist_len (Closes cs) = length cs"

fun close_column :: "history \<Rightarrow> py_error + pyfloat list" where
  "close_column (NoClose n) = Inl KeyError"
| "close_column (Closes cs) = Inr cs"

text \<open>What \<^verbatim>\<open>yf.download\<close> gives: it raises, or returns one plain table, or a table
  grouped by ticker.\<close>

datatype download = DownloadError | Flat history | Grouped "string \<rightharpoonup> history"

text \<open>\<^verbatim>\<open>rolling(window=200).mean().iloc[-1]\<close>: the mean of the last 200 cells, NaN when
  there are fewer than 200 or one of them is NaN (the sum is NaN then).\<close>

definition sma_200_of :: "pyfloat list \<Rightarrow> pyfloat" where
  "sma_200_of closes =
     (if length closes < 200 then NaN
      else fdiv (foldl fadd (Fin 0) (drop (length closes - 200) closes)) (Fin 200))"

text \<open>The table of one ticker (lines 205 to 210). With several tickers the table must
  be grouped (a plain one has no \<^verbatim>\<open>columns.levels\<close>) and a ticker that it lacks is passed
  over; with one ticker the whole download is taken, and a grouped one has no \<open>Close\<close>
  column at its top level.\<close>

definition ticker_history :: "nat \<Rightarrow> download \<Rightarrow> string \<Rightarrow> py_error + history option" where
  "ticker_history n_tickers downloaded ticker =
     (if 1 < n_tickers then
        (case downloaded of
           Grouped tables \<Rightarrow> Inr (tables ticker)
         | _ \<Rightarrow> Inl AttributeError)
      else
        (case downloaded of
           Flat df_hist \<Rightarrow> Inr (Some df_hist)
         | _ \<Rightarrow> Inl KeyError))"

text \<open>Lines 212 to 229: the rounded average and distance of a ticker in an uptrend,
  \<open>None\<close> for one that is passed over.\<close>

definition trend_metrics :: "history \<Rightarrow> py_error + (pyfloat \<times> pyfloat) option" where
  "trend_metrics df_hist =
     (if hist_len df_hist < 200 then Inr None
      else and_then (close_column df_hist) (\<lambda>closes.
        let sma_200 = sma_200_of closes;
            current_price = last closes;
            is_uptrend = fgt current_price sma_200;
            distance_pct =
              fround2 (fmul (fdiv (fsub current_price sma_200) sma_200) (Fin 100))
        in if is_uptrend then Inr (Some (fround2 sma_200, distance_pct)) else Inr None))"

text \<open>The body of the \<^verbatim>\<open>try\<close> block for one ticker.\<close>

definition ticker_outcome ::
  "nat \<Rightarrow> download \<Rightarrow> string \<Rightarrow> py_error + (pyfloat \<times> pyfloat) option" where
  "ticker_outcome n_tickers downloaded ticker =
     and_then (ticker_history n_tickers downloaded ticker) (\<lambda>found.
       case found of None \<Rightarrow> Inr None | Some df_hist \<Rightarrow> trend_metrics df_hist)"

text \<open>A row of the filtered table: the input row and the two new columns.\<close>

record 'a trend_row =
  base_row :: 'a
  SMA_200 :: pyfloat
  Trend_Dist_pct :: pyfloat

definition trend_entry ::
  "'a table_row_scheme list \<Rightarrow> download \<Rightarrow> string \<Rightarrow> 'a table_row_scheme trend_row option" where
  "trend_entry df_input downloaded ticker =
     (case ticker_outcome (length df_input) downloaded ticker of
        Inl e \<Rightarrow> None
      | Inr None \<Rightarrow> None
      | Inr (Some (sma_value, dist_value)) \<Rightarrow>
          (case find (\<lambda>r. Ticker r = ticker) df_input of
             None \<Rightarrow> None
           | Some r \<Rightarrow> Some \<lparr>base_row = r, SMA_200 = sma_value, Trend_Dist_pct = dist_value\<rparr>))"

text \<open>\<^verbatim>\<open>sort_values(by="Trend_Dist_%", ascending=True)\<close>: ascending, NaN last. Rows of equal
  distance keep their order here (pandas leaves their order open).\<close>

definition dist_le :: "pyfloat \<Rightarrow> pyfloat \<Rightarrow> bool" where
  "dist_le a b = (b = NaN \<or> (a \<noteq> NaN \<and> fle a b))"

fun insert_by_dist :: "'a trend_row \<Rightarrow> 'a trend_row list \<Rightarrow> 'a trend_row list" where
  "insert_by_dist r [] = [r]"
| "insert_by_dist r (x # xs) =
     (if dist_le (Trend_Dist_pct r) (Trend_Dist_pct x) then r # x # xs
      else x # insert_by_dist r xs)"

definition sort_by_dist :: "'a trend_row list \<Rightarrow> 'a trend_row list" where
  "sort_by_dist rows = foldr insert_by_dist rows []"

text \<open>The filter returns its input as it is (on an empty input or a failed download),
  or the table of the tickers in an uptrend.\<close>

datatype 'a trend_table = Unfiltered "'a list" | Uptrend "'a trend_row list"

definition apply_trend_alignment ::
  "'a table_row_scheme list \<Rightarrow> download \<Rightarrow> 'a table_row_scheme trend_table" where
  "apply_trend_alignment df_input downloaded =
     (if df_input = [] then Unfiltered df_input
      else
        (case downloaded of
           DownloadError \<Rightarrow> Unfiltered df_input
         | _ \<Rightarrow>
             Uptrend (sort_by_dist
               (List.map_filter (trend_entry df_input downloaded) (map Ticker df_input)))))"

text \<open>The tickers of a filter result.\<close>

fun result_tickers :: "'a table_row_scheme trend_table \<Rightarrow> string set" where
  "result_tickers (Unfiltered rows) = Ticker ` set rows"
| "result_tickers (Uptrend rows) = (\<lambda>r. Ticker (base_row r)) ` set rows"

text \<open>Sample data for the filter: 199 closes of 10 followed by one of 12, 200 closes
  of 10, a table of two tickers, and a download in which \<open>AAA\<close> has the rising history
  and the table of \<open>BBB\<close> has 250 rows but no \<open>Close\<close> column.\<close>

definition rising_closes :: "pyfloat list" where
  "rising_closes = map Fin (replicate 199 10 @ [12])"


definition two_rows :: "table_row list" where
  "two_rows = [\<lparr>Ticker = ''AAA''\<rparr>, \<lparr>Ticker = ''BBB''\<rparr>]"

definition sample_prices :: download where
  "sample_prices = Grouped [''AAA'' \<mapsto> Closes rising_closes, ''BBB'' \<mapsto> NoClose 250]"

section \<open>Properties\<close>

subsection \<open>Comparisons of finite floats\<close>

lemma fge_Fin: "fge (Fin a) (Fin b) = (b \<le> a)"
  by (auto simp: fge_def fle_def)

lemma fle_Fin: "fle (Fin a) (Fin b) = (a \<le> b)"
  by (auto simp: fle_def)

lemma fgt_Fin: "fgt (Fin a) (Fin b) = (b < a)"
  by (simp add: fgt_def)

subsection \<open>Tier classification\<close>

text \<open>
  C1. The tier is a function of interest coverage, ROIC, the two margin flags and the
  z-score alone (the entry's timestamp plays no part), evaluated in the stated order:
  interest coverage below its minimum gives Risky, else ROIC below its minimum gives
  Risky, else a fortress margin with z at least 2.99 gives Fortress, else a positive
  margin with z at least 1.81 gives Strong, else Risky. The two minima are configuration
  that the repository's sources do not fix; whenever the interest-coverage minimum lies
  above 2 and at most 50 and the ROIC minimum is at most 0.15, the three sample inputs
  of the specification give Fortress, Strong and Risky.
\<close>

theorem C1_tier_decision_rule:
  "determine_tier_history mic mroic m fm pm =
     (if flt (int_cov m) (Fin mic) then Risky
      else if flt (roic m) (Fin mroic) then Risky
      else if fm \<and> fge (z_score m) (Fin 2.99) then Fortress
      else if pm \<and> fge (z_score m) (Fin 1.81) then Strong
      else Risky)
   \<and> determine_tier_history mic mroic (m\<lparr>timestamp := t\<rparr>) fm pm
       = determine_tier_history mic mroic m fm pm
   \<and> determine_tier_history mic mroic
        \<lparr>timestamp = t, z_score = Fin z, roic = Fin r, int_cov = Fin ic\<rparr> fm pm =
     (if ic < mic then Risky
      else if r < mroic then Risky
      else if fm \<and> 2.99 \<le> z then Fortress
      else if pm \<and> 1.81 \<le> z then Strong
      else Risky)
   \<and> (2 < mic \<and> mic \<le> 50 \<and> mroic \<le> 0.15 \<longrightarrow>
        determine_tier_history mic mroic
          \<lparr>timestamp = t, z_score = Fin 3.5, roic = Fin 0.15, int_cov = Fin 50\<rparr> True pm
          = Fortress
      \<and> determine_tier_history mic mroic
          \<lparr>timestamp = t, z_score = Fin 2.0, roic = Fin 0.15, int_cov = Fin 50\<rparr> False True
          = Strong
      \<and> determine_tier_history mic mroic
          \<lparr>timestamp = t, z_score = Fin 5.0, roic = Fin 0.15, int_cov = Fin 2\<rparr> fm pm
          = Risky)"
  by (simp add: determine_tier_history_def fge_Fin)

theorem C1_tier_decision_rule_witness:
  "determine_tier_history 3 0.1
     \<lparr>timestamp = 0, z_score = Fin 3.5, roic = Fin 0.15, int_cov = Fin 50\<rparr> True True
     = Fortress
   \<and> determine_tier_history 3 0.1
     \<lparr>timestamp = 0, z_score = Fin 2.0, roic = Fin 0.15, int_cov = Fin 50\<rparr> False True
     = Strong
   \<and> determine_tier_history 3 0.1
     \<lparr>timestamp = 0, z_score = Fin 5.0, roic = Fin 0.15, int_cov = Fin 2\<rparr> True True
     = Risky"
  using C1_tier_decision_rule [where mic = 3 and mroic = "1 / 10" and t = 0
      and fm = True and pm = True]
  by (simp add: fge_Fin)

subsection \<open>Cache freshness\<close>

text \<open>
  C9. A cache entry is fresh exactly when the time elapsed since its timestamp is
  strictly less than the expiry: an entry stamped T is fresh one second before T + E and
  stale one second after it, for every T and E; at T + E itself it is already stale.
  The analyser's skip of a failure-sentinel entry follows the same boundary.
\<close>

theorem C9_cache_freshness:
  "is_fresh e now E = (now - timestamp e < E)
   \<and> is_fresh (e\<lparr>timestamp := T\<rparr>) (T + E - 1) E
   \<and> \<not> is_fresh (e\<lparr>timestamp := T\<rparr>) (T + E + 1) E
   \<and> \<not> is_fresh (e\<lparr>timestamp := T\<rparr>) (T + E) E
   \<and> skip_cached (c0(tk \<mapsto> e\<lparr>timestamp := T, roic := Fin (- 999)\<rparr>)) tk (T + E - 1) E
   \<and> \<not> skip_cached (c0(tk \<mapsto> e\<lparr>timestamp := T, roic := Fin (- 999)\<rparr>)) tk (T + E + 1) E"
  by (simp add: is_fresh_def skip_cached_def)

subsection \<open>Altman Z-Score\<close>

lemma altman_all_found:
  assumes "get_val bs [''Total Assets''] = Inr tassets"
    and "get_val bs [''Total Liabilities Net Minority Interest'', ''Total Liabilities'']
           = Inr tliab"
    and "get_val bs [''Current Assets'', ''Total Current Assets''] = Inr cassets"
    and "get_val bs [''Current Liabilities'', ''Total Current Liabilities''] = Inr cliab"
    and "get_val bs [''Retained Earnings''] = Inr rearn"
    and "get_val fin [''EBIT'', ''Operating Income''] = Inr ebit"
    and "get_val fin [''Total Revenue''] = Inr revenue"
  shows "calculate_altman_z_yfinance bs fin mcap =
     (if feq tassets (Fin 0) \<or> feq tliab (Fin 0) then Fin 0
      else fadd (fadd (fadd (fadd (fmul (Fin 1.2) (fdiv (fsub cassets cliab) tassets))
                                  (fmul (Fin 1.4) (fdiv rearn tassets)))
                            (fmul (Fin 3.3) (fdiv ebit tassets)))
                      (fmul (Fin 0.6) (fdiv mcap tliab)))
                (fmul (Fin 1.0) (fdiv revenue tassets)))"
  unfolding calculate_altman_z_yfinance_def altman_z_body_def and_then_def
  using assms by (simp del: get_val.simps)

lemma altman_lookup_raises:
  assumes "get_val bs [''Total Assets''] = Inl e
     \<or> get_val bs [''Total Liabilities Net Minority Interest'', ''Total Liabilities''] = Inl e
     \<or> get_val bs [''Current Assets'', ''Total Current Assets''] = Inl e
     \<or> get_val bs [''Current Liabilities'', ''Total Current Liabilities''] = Inl e
     \<or> get_val bs [''Retained Earnings''] = Inl e
     \<or> get_val fin [''EBIT'', ''Operating Income''] = Inl e
     \<or> get_val fin [''Total Revenue''] = Inl e"
  shows "calculate_altman_z_yfinance bs fin mcap = Fin 0"
  unfolding calculate_altman_z_yfinance_def altman_z_body_def and_then_def
  using assms by (auto simp del: get_val.simps split: sum.splits)

lemma altman_zero_assets:
  assumes "get_val bs [''Total Assets''] = Inr tassets" "feq tassets (Fin 0)"
  shows "calculate_altman_z_yfinance bs fin mcap = Fin 0"
  unfolding calculate_altman_z_yfinance_def altman_z_body_def and_then_def
  using assms by (auto simp del: get_val.simps split: sum.splits)

lemma altman_zero_liab:
  assumes "get_val bs [''Total Liabilities Net Minority Interest'', ''Total Liabilities'']
             = Inr tliab" "feq tliab (Fin 0)"
  shows "calculate_altman_z_yfinance bs fin mcap = Fin 0"
  unfolding calculate_altman_z_yfinance_def altman_z_body_def and_then_def
  using assms by (auto simp del: get_val.simps split: sum.splits)

lemma sample_lookups:
  "get_val sample_bs [''Total Assets''] = Inr (Fin 1000)"
  "get_val sample_bs [''Total Liabilities Net Minority Interest'', ''Total Liabilities'']
     = Inr (Fin 600)"
  "get_val sample_bs [''Current Assets'', ''Total Current Assets''] = Inr (Fin 400)"
  "get_val sample_bs [''Current Liabilities'', ''Total Current Liabilities''] = Inr (Fin 200)"
  "get_val sample_bs [''Retained Earnings''] = Inr (Fin 100)"
  "get_val sample_fin [''EBIT'', ''Operating Income''] = Inr (Fin 150)"
  "get_val sample_fin [''Total Revenue''] = Inr (Fin 900)"
  by (simp_all add: sample_bs_def sample_fin_def)

lemma sample_z: "calculate_altman_z_yfinance sample_bs sample_fin (Fin 2000) = Fin (151 / 40)"
  by (simp add: altman_all_found [OF sample_lookups] fsub_def)

text \<open>
  C5, as the specification states it, fails at its own sample: for total assets 1000,
  total liabilities 600, current assets 400, current liabilities 200, retained earnings
  100, EBIT 150, revenue 900 and market capitalisation 2000 the function returns
  151/40 = 3.775, which is not within 0.1 of the quoted 3.968.
\<close>

theorem C5_sample_is_not_3968:
  "calculate_altman_z_yfinance sample_bs sample_fin (Fin 2000) = Fin (151 / 40)
   \<and> \<not> close_to (calculate_altman_z_yfinance sample_bs sample_fin (Fin 2000)) 3.968 0.1"
  by (simp add: sample_z close_to_def)

text \<open>
  C5, amended. When every field lookup succeeds the function returns
  1.2 A + 1.4 B + 3.3 C + 0.6 D + 1.0 E with A = (current assets - current liabilities)
  / total assets, B = retained earnings / total assets, C = EBIT / total assets,
  D = market cap / total liabilities, E = revenue / total assets, unless total assets or
  total liabilities equal 0, when it returns 0; it returns 0 as well when any lookup
  raises. For finite values the result is that real number. For the sample company it
  is 3.775 (to within 0.0005), and for total assets 0 it is 0.
\<close>

theorem C5_altman_z_score:
  "(get_val bs [''Total Assets''] = Inr tassets
    \<and> get_val bs [''Total Liabilities Net Minority Interest'', ''Total Liabilities'']
        = Inr tliab
    \<and> get_val bs [''Current Assets'', ''Total Current Assets''] = Inr cassets
    \<and> get_val bs [''Current Liabilities'', ''Total Current Liabilities''] = Inr cliab
    \<and> get_val bs [''Retained Earnings''] = Inr rearn
    \<and> get_val fin [''EBIT'', ''Operating Income''] = Inr ebit
    \<and> get_val fin [''Total Revenue''] = Inr revenue
    \<longrightarrow> calculate_altman_z_yfinance bs fin mcap =
         (if feq tassets (Fin 0) \<or> feq tliab (Fin 0) then Fin 0
          else fadd (fadd (fadd (fadd (fmul (Fin 1.2) (fdiv (fsub cassets cliab) tassets))
                                      (fmul (Fin 1.4) (fdiv rearn tassets)))
                                (fmul (Fin 3.3) (fdiv ebit tassets)))
                          (fmul (Fin 0.6) (fdiv mcap tliab)))
                    (fmul (Fin 1.0) (fdiv revenue tassets))))
   \<and> (get_val bs [''Total Assets''] = Inr (Fin a)
      \<and> get_val bs [''Total Liabilities Net Minority Interest'', ''Total Liabilities'']
          = Inr (Fin l)
      \<and> get_val bs [''Current Assets'', ''Total Current Assets''] = Inr (Fin ca)
      \<and> get_val bs [''Current Liabilities'', ''Total Current Liabilities''] = Inr (Fin cl)
      \<and> get_val bs [''Retained Earnings''] = Inr (Fin r)
      \<and> get_val fin [''EBIT'', ''Operating Income''] = Inr (Fin eb)
      \<and> get_val fin [''Total Revenue''] = Inr (Fin s)
      \<and> a \<noteq> 0 \<and> l \<noteq> 0
      \<longrightarrow> calculate_altman_z_yfinance bs fin (Fin m) =
           Fin (1.2 * ((ca - cl) / a) + 1.4 * (r / a) + 3.3 * (eb / a) + 0.6 * (m / l)
                + 1.0 * (s / a)))
   \<and> (get_val bs [''Total Assets''] = Inr (Fin 0)
      \<or> get_val bs [''Total Liabilities Net Minority Interest'', ''Total Liabilities'']
          = Inr (Fin 0)
      \<longrightarrow> calculate_altman_z_yfinance bs fin mcap = Fin 0)
   \<and> (get_val bs [''Total Assets''] = Inl e
      \<or> get_val bs [''Total Liabilities Net Minority Interest'', ''Total Liabilities'']
          = Inl e
      \<or> get_val bs [''Current Assets'', ''Total Current Assets''] = Inl e
      \<or> get_val bs [''Current Liabilities'', ''Total Current Liabilities''] = Inl e
      \<or> get_val bs [''Retained Earnings''] = Inl e
      \<or> get_val fin [''EBIT'', ''Operating Income''] = Inl e
      \<or> get_val fin [''Total Revenue''] = Inl e
      \<longrightarrow> calculate_altman_z_yfinance bs fin mcap = Fin 0)
   \<and> close_to (calculate_altman_z_yfinance sample_bs sample_fin (Fin 2000)) 3.775 0.0005
   \<and> calculate_altman_z_yfinance ((''Total Assets'', [Fin 0]) # sample_bs) sample_fin
        (Fin 2000) = Fin 0"
proof (intro conjI impI)
  assume h: "get_val bs [''Total Assets''] = Inr tassets
    \<and> get_val bs [''Total Liabilities Net Minority Interest'', ''Total Liabilities'']
        = Inr tliab
    \<and> get_val bs [''Current Assets'', ''Total Current Assets''] = Inr cassets
    \<and> get_val bs [''Current Liabilities'', ''Total Current Liabilities''] = Inr cliab
    \<and> get_val bs [''Retained Earnings''] = Inr rearn
    \<and> get_val fin [''EBIT'', ''Operating Income''] = Inr ebit
    \<and> get_val fin [''Total Revenue''] = Inr revenue"
  then show "calculate_altman_z_yfinance bs fin mcap =
         (if feq tassets (Fin 0) \<or> feq tliab (Fin 0) then Fin 0
          else fadd (fadd (fadd (fadd (fmul (Fin 1.2) (fdiv (fsub cassets cliab) tassets))
                                      (fmul (Fin 1.4) (fdiv rearn tassets)))
                                (fmul (Fin 3.3) (fdiv ebit tassets)))
                          (fmul (Fin 0.6) (fdiv mcap tliab)))
                    (fmul (Fin 1.0) (fdiv revenue tassets)))"
    by (intro altman_all_found) simp_all
next
  assume h: "get_val bs [''Total Assets''] = Inr (Fin a)
      \<and> get_val bs [''Total Liabilities Net Minority Interest'', ''Total Liabilities'']
          = Inr (Fin l)
      \<and> get_val bs [''Current Assets'', ''Total Current Assets''] = Inr (Fin ca)
      \<and> get_val bs [''Current Liabilities'', ''Total Current Liabilities''] = Inr (Fin cl)
      \<and> get_val bs [''Retained Earnings''] = Inr (Fin r)
      \<and> get_val fin [''EBIT'', ''Operating Income''] = Inr (Fin eb)
      \<and> get_val fin [''Total Revenue''] = Inr (Fin s)
      \<and> a \<noteq> 0 \<and> l \<noteq> 0"
  have "calculate_altman_z_yfinance bs fin (Fin m) =
         (if feq (Fin a) (Fin 0) \<or> feq (Fin l) (Fin 0) then Fin 0
          else fadd (fadd (fadd (fadd (fmul (Fin 1.2) (fdiv (fsub (Fin ca) (Fin cl)) (Fin a)))
                                      (fmul (Fin 1.4) (fdiv (Fin r) (Fin a))))
                                (fmul (Fin 3.3) (fdiv (Fin eb) (Fin a))))
                          (fmul (Fin 0.6) (fdiv (Fin m) (Fin l))))
                    (fmul (Fin 1.0) (fdiv (Fin s) (Fin a))))"
    using h by (intro altman_all_found) simp_all
  with h show "calculate_altman_z_yfinance bs fin (Fin m) =
           Fin (1.2 * ((ca - cl) / a) + 1.4 * (r / a) + 3.3 * (eb / a) + 0.6 * (m / l)
                + 1.0 * (s / a))"
    by (simp add: fsub_def)
next
  assume "get_val bs [''Total Assets''] = Inr (Fin 0)
      \<or> get_val bs [''Total Liabilities Net Minority Interest'', ''Total Liabilities'']
          = Inr (Fin 0)"
  then show "calculate_altman_z_yfinance bs fin mcap = Fin 0"
    using altman_zero_assets [of bs "Fin 0" fin mcap] altman_zero_liab [of bs "Fin 0" fin mcap]
    by auto
next
  assume "get_val bs [''Total Assets''] = Inl e
      \<or> get_val bs [''Total Liabilities Net Minority Interest'', ''Total Liabilities'']
          = Inl e
      \<or> get_val bs [''Current Assets'', ''Total Current Assets''] = Inl e
      \<or> get_val bs [''Current Liabilities'', ''Total Current Liabilities''] = Inl e
      \<or> get_val bs [''Retained Earnings''] = Inl e
      \<or> get_val fin [''EBIT'', ''Operating Income''] = Inl e
      \<or> get_val fin [''Total Revenue''] = Inl e"
  then show "calculate_altman_z_yfinance bs fin mcap = Fin 0"
    by (rule altman_lookup_raises)
next
  show "close_to (calculate_altman_z_yfinance sample_bs sample_fin (Fin 2000)) 3.775 0.0005"
    by (simp add: sample_z close_to_def)
next
  show "calculate_altman_z_yfinance ((''Total Assets'', [Fin 0]) # sample_bs) sample_fin
        (Fin 2000) = Fin 0"
    by (rule altman_zero_assets [of _ "Fin 0"]) simp_all
qed

theorem C5_altman_z_score_witness:
  "calculate_altman_z_yfinance sample_bs sample_fin (Fin 2000) =
     Fin (1.2 * ((400 - 200) / 1000) + 1.4 * (100 / 1000) + 3.3 * (150 / 1000)
          + 0.6 * (2000 / 600) + 1.0 * (900 / 1000))
   \<and> calculate_altman_z_yfinance [] sample_fin (Fin 2000) = Fin 0
   \<and> calculate_altman_z_yfinance [(''Total Assets'', [])] sample_fin (Fin 2000) = Fin 0"
proof -
  have found: "get_val sample_bs [''Total Assets''] = Inr (Fin 1000)
      \<and> get_val sample_bs [''Total Liabilities Net Minority Interest'', ''Total Liabilities'']
          = Inr (Fin 600)
      \<and> get_val sample_bs [''Current Assets'', ''Total Current Assets''] = Inr (Fin 400)
      \<and> get_val sample_bs [''Current Liabilities'', ''Total Current Liabilities'']
          = Inr (Fin 200)
      \<and> get_val sample_bs [''Retained Earnings''] = Inr (Fin 100)
      \<and> get_val sample_fin [''EBIT'', ''Operating Income''] = Inr (Fin 150)
      \<and> get_val sample_fin [''Total Revenue''] = Inr (Fin 900)
      \<and> (1000 :: real) \<noteq> 0 \<and> (600 :: real) \<noteq> 0"
    by (simp add: sample_bs_def sample_fin_def)
  have zero: "get_val [] [''Total Assets''] = Inr (Fin 0)
      \<or> get_val [] [''Total Liabilities Net Minority Interest'', ''Total Liabilities'']
          = Inr (Fin 0)"
    by simp
  have w1: "calculate_altman_z_yfinance sample_bs sample_fin (Fin 2000) =
     Fin (1.2 * ((400 - 200) / 1000) + 1.4 * (100 / 1000) + 3.3 * (150 / 1000)
          + 0.6 * (2000 / 600) + 1.0 * (900 / 1000))"
    using found
    by (rule C5_altman_z_score [where bs = sample_bs and fin = sample_fin,
          THEN conjunct2, THEN conjunct1, THEN mp])
  have w2: "calculate_altman_z_yfinance [] sample_fin (Fin 2000) = Fin 0"
    using zero
    by (rule C5_altman_z_score [where bs = "[]" and fin = sample_fin,
          THEN conjunct2, THEN conjunct2, THEN conjunct1, THEN mp])
  have w3: "calculate_altman_z_yfinance [(''Total Assets'', [])] sample_fin (Fin 2000) = Fin 0"
    by (rule C5_altman_z_score [where bs = "[(''Total Assets'', [])]" and fin = sample_fin
          and e = IndexError,
          THEN conjunct2, THEN conjunct2, THEN conjunct2, THEN conjunct1, THEN mp]) simp
  show ?thesis
    using w1 w2 w3 by simp
qed

subsection \<open>Bulk Screener\<close>

lemma and_then_Inr: "and_then (Inr v) f = f v"
  by (simp add: and_then_def)

lemma and_then_Inl: "and_then (Inl e) f = Inl e"
  by (simp add: and_then_def)

lemma module_members:
  assumes "module_ok data m"
  shows "\<exists>ms. py_get data m (JObj []) = Inr (JObj ms) \<and> (\<forall>k. field_of data m k = map_of ms k)"
proof (cases data)
  case (JObj kvs)
  show ?thesis
  proof (cases "map_of kvs m")
    case None
    with JObj have "py_get data m (JObj []) = Inr (JObj []) \<and> (\<forall>k. field_of data m k = map_of [] k)"
      by (simp add: field_of_def)
    then show ?thesis by blast
  next
    case (Some v)
    with JObj assms obtain ms where v: "v = JObj ms"
      by (cases v) (simp_all add: module_ok_def)
    with JObj Some have "py_get data m (JObj []) = Inr (JObj ms) \<and> (\<forall>k. field_of data m k = map_of ms k)"
      by (simp add: field_of_def)
    then show ?thesis by blast
  qed
qed (use assms in \<open>simp_all add: module_ok_def\<close>)

lemma get2_typed:
  assumes "module_ok data m"
  shows "get2 data m k d = Inr (field_or (field_of data m k) d)"
proof -
  from module_members [OF assms] obtain ms where "py_get data m (JObj []) = Inr (JObj ms)"
    and "\<forall>k. field_of data m k = map_of ms k" by blast
  then show ?thesis
    by (simp add: get2_def and_then_def field_or_def)
qed

lemma fin_data_typed:
  assumes "module_ok data m"
  shows "and_then (py_get data m (JObj [])) (\<lambda>fd. and_then (py_get fd k1 d1) (\<lambda>v1.
           and_then (py_get fd k2 d2) (\<lambda>v2. F v1 v2)))
         = F (field_or (field_of data m k1) d1) (field_or (field_of data m k2) d2)"
proof -
  from module_members [OF assms] obtain ms where "py_get data m (JObj []) = Inr (JObj ms)"
    and "\<forall>k. field_of data m k = map_of ms k" by blast
  then show ?thesis
    by (simp add: and_then_def field_or_def)
qed

lemma number_field:
  "number_ok v \<Longrightarrow> none_to_zero (field_or v (JNum 0)) = JNum (spec_num v)"
  by (auto simp: number_ok_def none_to_zero_def field_or_def spec_num_def
      split: option.splits json.splits)

lemma volume_choice:
  assumes "number_ok v"
  shows "(if field_or v (JNum 0) = JNull \<or> field_or v (JNum 0) = JNum 0 then A else Inr (field_or v (JNum 0)))
     = (if spec_num v = 0 then A else Inr (JNum (spec_num v)))"
  using assms by (auto simp: number_ok_def field_or_def spec_num_def
      split: option.splits json.splits)

lemma extract_typed:
  assumes "typed_bundle data"
  shows "extract_fields data =
     Inr \<lparr>price = JNum (spec_num (field_of data ''price'' ''regularMarketPrice'')),
          vol = volume_read data,
          cap = JNum (spec_num (field_of data ''price'' ''marketCap'')),
          sector = field_or (field_of data ''summaryProfile'' ''sector'') (JStr ''Unknown''),
          curr_ratio = JNum (spec_num (field_of data ''financialData'' ''currentRatio'')),
          op_margins = JNum (spec_num (field_of data ''financialData'' ''operatingMargins'')),
          pe = field_or (field_of data ''summaryDetail'' ''trailingPE'') JNull\<rparr>"
proof -
  from assms have m: "module_ok data ''price''" "module_ok data ''summaryDetail''"
    "module_ok data ''summaryProfile''" "module_ok data ''financialData''"
    and n: "number_ok (field_of data ''price'' ''regularMarketPrice'')"
      "number_ok (field_of data ''summaryDetail'' ''averageVolume'')"
      "number_ok (field_of data ''price'' ''marketCap'')"
      "number_ok (field_of data ''financialData'' ''currentRatio'')"
      "number_ok (field_of data ''financialData'' ''operatingMargins'')"
    by (simp_all add: typed_bundle_def)
  show ?thesis
    unfolding extract_fields_def
    by (simp add: get2_typed m fin_data_typed volume_choice n number_field and_then_Inr
        volume_read_def)
qed


lemma any_excluded_str:
  "any_excluded xs (JStr s) = Inr (list_ex (\<lambda>x. is_substring x s) xs)"
  by (induction xs) (simp_all add: and_then_Inr)

lemma any_excluded_null:
  "any_excluded xs JNull = (if xs = [] then Inr False else Inl TypeError)"
  by (cases xs) (simp_all add: and_then_Inl)

lemma passes_typed:
  assumes "pev = JNull \<or> (\<exists>q. pev = JNum q)"
  shows "passes_filters cfg \<lparr>price = JNum p, vol = v, cap = JNum c, sector = s,
            curr_ratio = JNum cr, op_margins = JNum om, pe = pev\<rparr> = Inr True
     \<longleftrightarrow> (case pev of JNum q \<Rightarrow> q \<le> MAX_PE_RATIO cfg | _ \<Rightarrow> True)
         \<and> MIN_PRICE cfg \<le> p \<and> MIN_CAP cfg \<le> c
         \<and> (\<exists>w. v = JNum w \<and> MIN_VOLUME cfg \<le> w)
         \<and> any_excluded (EXCLUDED_SECTORS cfg) s = Inr False
         \<and> MIN_CURRENT_RATIO cfg \<le> cr \<and> 0 < om"
  using assms
  by (cases v; cases "any_excluded (EXCLUDED_SECTORS cfg) s")
     (auto simp: passes_filters_def and_then_def not_less not_le split: if_splits)

lemma make_survivor_typed:
  assumes "pev = JNull \<or> (\<exists>q. pev = JNum q)"
  shows "\<exists>r. make_survivor symbol \<lparr>price = pr, vol = v, cap = JNum c, sector = s,
            curr_ratio = crv, op_margins = JNum om, pe = pev\<rparr> = Inr r"
  using assms by (auto simp: make_survivor_def and_then_def)


lemma screen_symbol_passes:
  assumes "typed_bundle data"
  shows "(screen_symbol cfg symbol data \<noteq> None) =
     (passes_filters cfg
        \<lparr>price = JNum (spec_num (field_of data ''price'' ''regularMarketPrice'')),
         vol = volume_read data,
         cap = JNum (spec_num (field_of data ''price'' ''marketCap'')),
         sector = field_or (field_of data ''summaryProfile'' ''sector'') (JStr ''Unknown''),
         curr_ratio = JNum (spec_num (field_of data ''financialData'' ''currentRatio'')),
         op_margins = JNum (spec_num (field_of data ''financialData'' ''operatingMargins'')),
         pe = field_or (field_of data ''summaryDetail'' ''trailingPE'') JNull\<rparr> = Inr True)"
proof -
  let ?pev = "field_or (field_of data ''summaryDetail'' ''trailingPE'') JNull"
  let ?f = "\<lparr>price = JNum (spec_num (field_of data ''price'' ''regularMarketPrice'')),
         vol = volume_read data,
         cap = JNum (spec_num (field_of data ''price'' ''marketCap'')),
         sector = field_or (field_of data ''summaryProfile'' ''sector'') (JStr ''Unknown''),
         curr_ratio = JNum (spec_num (field_of data ''financialData'' ''currentRatio'')),
         op_margins = JNum (spec_num (field_of data ''financialData'' ''operatingMargins'')),
         pe = ?pev\<rparr>"
  from assms have "number_ok (field_of data ''summaryDetail'' ''trailingPE'')"
    by (simp add: typed_bundle_def)
  then have pev: "?pev = JNull \<or> (\<exists>q. ?pev = JNum q)"
    by (auto simp: number_ok_def field_or_def split: option.splits json.splits)
  from make_survivor_typed [OF pev] obtain r where r: "make_survivor symbol ?f = Inr r"
    by blast
  from assms have "module_ok data ''price''" by (simp add: typed_bundle_def)
  then obtain kvs where d: "data = JObj kvs"
    by (cases data) (simp_all add: module_ok_def)
  have body: "screen_symbol_body cfg symbol data =
      and_then (passes_filters cfg ?f) (\<lambda>passed.
        if passed then and_then (make_survivor symbol ?f) (\<lambda>r. Inr (Some r)) else Inr None)"
    by (simp add: screen_symbol_body_def extract_typed [OF assms] and_then_Inr)
  show ?thesis
  proof (cases "passes_filters cfg ?f")
    case (Inl e)
    with body d show ?thesis by (simp add: screen_symbol_def and_then_Inl)
  next
    case (Inr passed)
    with body d r show ?thesis by (simp add: screen_symbol_def and_then_Inr)
  qed
qed

lemma volume_read_num:
  assumes "typed_bundle data"
  shows "(\<exists>w. volume_read data = JNum w \<and> bound \<le> w) =
     (\<not> null_volume_fallback data \<and> bound \<le> spec_avg_volume data)"
proof -
  from assms have "number_ok (field_of data ''price'' ''averageDailyVolume10Day'')"
    by (simp add: typed_bundle_def)
  then show ?thesis
    by (auto simp: volume_read_def null_volume_fallback_def spec_avg_volume_def number_ok_def
        field_or_def spec_num_def split: option.splits json.splits)
qed

lemma sector_read_ok:
  assumes "typed_bundle data"
  shows "(any_excluded xs (field_or (field_of data ''summaryProfile'' ''sector'') (JStr ''Unknown''))
            = Inr False) =
     ((null_sector data \<longrightarrow> xs = [])
      \<and> \<not> list_ex (\<lambda>x. is_substring x (spec_sector (field_of data ''summaryProfile'' ''sector''))) xs)"
proof -
  from assms have "text_ok (field_of data ''summaryProfile'' ''sector'')"
    by (simp add: typed_bundle_def)
  then show ?thesis
    by (auto simp: text_ok_def null_sector_def field_or_def spec_sector_def any_excluded_str
        any_excluded_null split: option.splits json.splits)
qed

lemma pe_read_ok:
  assumes "typed_bundle data"
  shows "(case field_or (field_of data ''summaryDetail'' ''trailingPE'') JNull of
            JNum q \<Rightarrow> q \<le> MAX_PE_RATIO cfg | _ \<Rightarrow> True) = spec_pe_ok cfg data"
proof -
  from assms have "number_ok (field_of data ''summaryDetail'' ''trailingPE'')"
    by (simp add: typed_bundle_def)
  then show ?thesis
    by (auto simp: number_ok_def field_or_def spec_pe_ok_def split: option.splits json.splits)
qed

lemma screen_symbol_typed:
  assumes "typed_bundle data"
  shows "(screen_symbol cfg symbol data \<noteq> None) =
     (spec_survives cfg data \<and> \<not> null_volume_fallback data
      \<and> (null_sector data \<longrightarrow> EXCLUDED_SECTORS cfg = []))"
proof -
  let ?pev = "field_or (field_of data ''summaryDetail'' ''trailingPE'') JNull"
  from assms have "number_ok (field_of data ''summaryDetail'' ''trailingPE'')"
    by (simp add: typed_bundle_def)
  then have pev: "?pev = JNull \<or> (\<exists>q. ?pev = JNum q)"
    by (auto simp: number_ok_def field_or_def split: option.splits json.splits)
  show ?thesis
    unfolding screen_symbol_passes [OF assms] passes_typed [OF pev]
      volume_read_num [OF assms] sector_read_ok [OF assms] pe_read_ok [OF assms]
      spec_survives_def
    by blast
qed

lemma make_survivor_ticker: "make_survivor symbol f = Inr r \<Longrightarrow> Ticker r = symbol"
  by (auto simp: make_survivor_def and_then_def split: sum.splits if_splits)

lemma screen_symbol_body_ticker:
  "screen_symbol_body cfg symbol data = Inr (Some r) \<Longrightarrow> Ticker r = symbol"
  by (auto simp: screen_symbol_body_def and_then_def dest: make_survivor_ticker
      split: sum.splits if_splits)

lemma screen_symbol_ticker:
  "screen_symbol cfg symbol data = Some r \<Longrightarrow> Ticker r = symbol"
  by (cases data)
     (auto simp: screen_symbol_def dest: screen_symbol_body_ticker split: sum.splits)

lemma chunked_concat: "0 < n \<Longrightarrow> concat (chunked n xs) = xs"
proof (induction n xs rule: chunked.induct)
  case (1 n xs)
  show ?case
  proof (cases "xs = []")
    case True
    then show ?thesis by simp
  next
    case False
    with 1 have "concat (chunked n (drop n xs)) = drop n xs" by simp
    with False 1(2) show ?thesis
      by (subst chunked.simps) simp
  qed
qed

lemma chunked_subset: "chunk \<in> set (chunked n xs) \<Longrightarrow> set chunk \<subseteq> set xs"
proof (induction n xs rule: chunked.induct)
  case (1 n xs)
  show ?case
  proof (cases "n = 0 \<or> xs = []")
    case True
    with 1(2) show ?thesis by (simp split: if_splits)
  next
    case False
    with 1(2) have "chunk = take n xs \<or> chunk \<in> set (chunked n (drop n xs))"
      by (subst (asm) chunked.simps) simp
    then show ?thesis
    proof
      assume "chunk = take n xs"
      then show ?thesis by (auto dest: in_set_takeD)
    next
      assume "chunk \<in> set (chunked n (drop n xs))"
      with 1(1) False have "set chunk \<subseteq> set (drop n xs)" by simp
      then show ?thesis by (auto dest: in_set_dropD)
    qed
  qed
qed

lemma set_map_filter:
  "y \<in> set (List.map_filter f xs) \<longleftrightarrow> (\<exists>x \<in> set xs. f x = Some y)"
  by (induction xs) (auto split: option.splits)

lemma screen_chunk_member:
  "r \<in> set (screen_chunk cfg get_modules chunk) \<longleftrightarrow>
     (\<exists>items symbol data. get_modules chunk = Modules items \<and> (symbol, data) \<in> set items
        \<and> screen_symbol cfg symbol data = Some r)"
proof (cases "get_modules chunk")
  case BatchError
  then show ?thesis by (simp add: screen_chunk_def)
next
  case (Modules items)
  have "r \<in> set (screen_chunk cfg get_modules chunk) \<longleftrightarrow>
      (\<exists>x \<in> set items. (case x of (symbol, data) \<Rightarrow> screen_symbol cfg symbol data) = Some r)"
    using Modules by (simp add: screen_chunk_def set_map_filter)
  also have "\<dots> \<longleftrightarrow> (\<exists>symbol data. (symbol, data) \<in> set items
        \<and> screen_symbol cfg symbol data = Some r)"
    by (simp add: Bex_def)
  finally show ?thesis using Modules by simp
qed

lemma survivors_member:
  "r \<in> set (get_initial_survivors tickers cfg get_modules) \<longleftrightarrow>
     (\<exists>chunk items symbol data. chunk \<in> set (chunked 500 tickers)
        \<and> get_modules chunk = Modules items \<and> (symbol, data) \<in> set items
        \<and> screen_symbol cfg symbol data = Some r)"
proof -
  have "r \<in> set (get_initial_survivors tickers cfg get_modules) \<longleftrightarrow>
      (\<exists>chunk \<in> set (chunked 500 tickers). r \<in> set (screen_chunk cfg get_modules chunk))"
    by (simp add: get_initial_survivors_def)
  then show ?thesis
    unfolding screen_chunk_member by blast
qed


lemma screen_symbol_eq_body:
  "screen_symbol cfg symbol data =
     (case screen_symbol_body cfg symbol data of Inl e \<Rightarrow> None | Inr r \<Rightarrow> r)"
  by (cases data)
     (simp_all add: screen_symbol_def screen_symbol_body_def extract_fields_def get2_def
        and_then_Inl)

lemma healthy_typed: "typed_bundle healthy_bundle"
  by (simp add: typed_bundle_def module_ok_def number_ok_def text_ok_def field_of_def
      healthy_bundle_def sample_bundle_def)

lemma healthy_spec: "spec_survives sample_config healthy_bundle"
  by (simp add: spec_survives_def spec_pe_ok_def spec_avg_volume_def spec_num_def
      spec_sector_def field_of_def healthy_bundle_def sample_bundle_def sample_config_def)

lemma healthy_no_null: "\<not> null_sector healthy_bundle \<and> \<not> null_volume_fallback healthy_bundle"
  by (simp add: null_sector_def null_volume_fallback_def spec_num_def field_of_def
      healthy_bundle_def sample_bundle_def)

text \<open>
  C4, as stated, fails: a ticker whose bundle meets every one of the seven predicates
  (price 50, market cap 5 billion, volume one million, P/E 10, current ratio 2, margin
  0.2, no sector on record) is dropped when the provider sends an error message in place
  of the profile module, because reading the sector raises and the handler skips the
  ticker.
\<close>

theorem C4_profile_error_drops_ticker:
  "spec_survives sample_config no_profile_bundle
   \<and> screen_symbol sample_config ''ABC'' no_profile_bundle = None
   \<and> get_initial_survivors [''ABC''] sample_config
        (\<lambda>chunk. Modules (map (\<lambda>t. (t, no_profile_bundle)) chunk)) = []"
proof -
  have 1: "spec_survives sample_config no_profile_bundle"
    by (simp add: spec_survives_def spec_pe_ok_def spec_avg_volume_def spec_num_def
      spec_sector_def field_of_def no_profile_bundle_def sample_config_def)
  have "extract_fields no_profile_bundle = Inl AttributeError"
    by (simp add: extract_fields_def get2_def and_then_def no_profile_bundle_def
        none_to_zero_def)
  then have 2: "screen_symbol sample_config ''ABC'' no_profile_bundle = None"
    by (simp add: screen_symbol_eq_body screen_symbol_body_def and_then_Inl)
  have "chunked 500 [''ABC''] = [[''ABC'']]"
    by (simp add: chunked.simps [of 500 "[''ABC'']"] chunked.simps [of 500 "[]"])
  with 2 have 3: "get_initial_survivors [''ABC''] sample_config
        (\<lambda>chunk. Modules (map (\<lambda>t. (t, no_profile_bundle)) chunk)) = []"
    by (simp add: get_initial_survivors_def screen_chunk_def)
  from 1 2 3 show ?thesis by simp
qed

text \<open>
  C4, amended. If the provider answers only for symbols of the batch it was asked for,
  the tickers of the output are among the input tickers. A row is in the output exactly
  when some batch's answer holds a symbol whose bundle passes \<open>screen_symbol\<close>, and the
  row carries that symbol. For a bundle of the documented shape (modules that are
  records or absent; numbers, strings, null or absent fields) every survivor meets all
  seven predicates under the specification's defaults, and a bundle whose sector and
  consulted 10-day volume are not null survives exactly when it meets all seven. What
  happens to a bundle with a null sector or a null 10-day volume is left open here.
\<close>

theorem C4_bulk_screener_filter:
  "((\<forall>chunk items. get_modules chunk = Modules items \<longrightarrow> fst ` set items \<subseteq> set chunk)
      \<longrightarrow> Ticker ` set (get_initial_survivors tickers cfg get_modules) \<subseteq> set tickers)
   \<and> (r \<in> set (get_initial_survivors tickers cfg get_modules) \<longleftrightarrow>
        (\<exists>chunk items symbol data. chunk \<in> set (chunked 500 tickers)
           \<and> get_modules chunk = Modules items \<and> (symbol, data) \<in> set items
           \<and> screen_symbol cfg symbol data = Some r))
   \<and> (screen_symbol cfg symbol data = Some r \<longrightarrow> Ticker r = symbol)
   \<and> (typed_bundle data \<longrightarrow>
        (screen_symbol cfg symbol data \<noteq> None \<longrightarrow> spec_survives cfg data)
      \<and> (\<not> null_sector data \<and> \<not> null_volume_fallback data \<longrightarrow>
           (screen_symbol cfg symbol data \<noteq> None) = spec_survives cfg data))"
proof (intro conjI impI)
  assume keys: "\<forall>chunk items. get_modules chunk = Modules items \<longrightarrow> fst ` set items \<subseteq> set chunk"
  show "Ticker ` set (get_initial_survivors tickers cfg get_modules) \<subseteq> set tickers"
  proof
    fix t assume "t \<in> Ticker ` set (get_initial_survivors tickers cfg get_modules)"
    then obtain x where x: "x \<in> set (get_initial_survivors tickers cfg get_modules)"
      and t: "t = Ticker x" by blast
    from x obtain chunk items symbol d where c: "chunk \<in> set (chunked 500 tickers)"
      and m: "get_modules chunk = Modules items" and i: "(symbol, d) \<in> set items"
      and s: "screen_symbol cfg symbol d = Some x"
      unfolding survivors_member by blast
    from s have "Ticker x = symbol" by (rule screen_symbol_ticker)
    moreover from keys m i have "symbol \<in> set chunk" by force
    moreover from c have "set chunk \<subseteq> set tickers" by (rule chunked_subset)
    ultimately show "t \<in> set tickers" using t by blast
  qed
next
  show "r \<in> set (get_initial_survivors tickers cfg get_modules) \<longleftrightarrow>
        (\<exists>chunk items symbol data. chunk \<in> set (chunked 500 tickers)
           \<and> get_modules chunk = Modules items \<and> (symbol, data) \<in> set items
           \<and> screen_symbol cfg symbol data = Some r)"
    by (rule survivors_member)
next
  assume "screen_symbol cfg symbol data = Some r"
  then show "Ticker r = symbol" by (rule screen_symbol_ticker)
next
  assume "typed_bundle data" "screen_symbol cfg symbol data \<noteq> None"
  then show "spec_survives cfg data"
    using screen_symbol_typed [of data cfg symbol] by blast
next
  assume "typed_bundle data" "\<not> null_sector data \<and> \<not> null_volume_fallback data"
  then show "(screen_symbol cfg symbol data \<noteq> None) = spec_survives cfg data"
    using screen_symbol_typed [of data cfg symbol] by blast
qed

lemma healthy_row: "screen_symbol sample_config ''ABC'' healthy_bundle =
   Some \<lparr>Ticker = ''ABC'', Sector = JStr ''Technology'', Price = JNum 50, Op_Margin_pct = 20,
     PE = 10, Curr_Ratio = JNum 2, Mkt_Cap_B = 5\<rparr>"
proof -
  have e: "extract_fields healthy_bundle =
     Inr \<lparr>price = JNum 50, vol = JNum 1000000, cap = JNum 5000000000,
          sector = JStr ''Technology'',
          curr_ratio = JNum 2, op_margins = JNum (1 / 5), pe = JNum 10\<rparr>"
    by (simp add: extract_fields_def get2_def and_then_def healthy_bundle_def sample_bundle_def
        none_to_zero_def)
  have p: "passes_filters sample_config \<lparr>price = JNum 50, vol = JNum 1000000, cap = JNum 5000000000,
          sector = JStr ''Technology'',
          curr_ratio = JNum 2, op_margins = JNum (1 / 5), pe = JNum 10\<rparr> = Inr True"
    by (simp add: passes_filters_def and_then_def sample_config_def)
  have m: "make_survivor ''ABC'' \<lparr>price = JNum 50, vol = JNum 1000000, cap = JNum 5000000000,
          sector = JStr ''Technology'',
          curr_ratio = JNum 2, op_margins = JNum (1 / 5), pe = JNum 10\<rparr> =
      Inr \<lparr>Ticker = ''ABC'', Sector = JStr ''Technology'', Price = JNum 50, Op_Margin_pct = 20,
     PE = 10, Curr_Ratio = JNum 2, Mkt_Cap_B = 5\<rparr>"
    by (simp add: make_survivor_def and_then_def round2_def round_half_even_def)
  show ?thesis
    by (simp add: screen_symbol_eq_body screen_symbol_body_def e p m and_then_Inr)
qed

theorem C4_bulk_screener_filter_witness:
  "Ticker ` set (get_initial_survivors [''ABC'', ''XYZ''] sample_config sample_modules)
     \<subseteq> set [''ABC'', ''XYZ'']
   \<and> typed_bundle healthy_bundle
   \<and> \<not> null_sector healthy_bundle \<and> \<not> null_volume_fallback healthy_bundle
   \<and> spec_survives sample_config healthy_bundle
   \<and> screen_symbol sample_config ''ABC'' healthy_bundle \<noteq> None"
proof -
  have keys: "\<forall>chunk items. sample_modules chunk = Modules items \<longrightarrow> fst ` set items \<subseteq> set chunk"
    by (auto simp: sample_modules_def)
  note c4 = C4_bulk_screener_filter [where get_modules = sample_modules and cfg = sample_config
      and tickers = "[''ABC'', ''XYZ'']" and data = healthy_bundle and symbol = "''ABC''"]
  from c4 keys have sub: "Ticker ` set (get_initial_survivors [''ABC'', ''XYZ''] sample_config
      sample_modules) \<subseteq> set [''ABC'', ''XYZ'']"
    by blast
  from c4 healthy_typed healthy_row have "spec_survives sample_config healthy_bundle"
    by simp
  with sub healthy_typed healthy_no_null healthy_row show ?thesis by simp
qed

text \<open>
  C6 at two provider responses. With a primary volume of 0 and a 10-day volume of null,
  the volume that reaches \<^verbatim>\<open>vol < MIN_VOLUME\<close> is null and the comparison raises
  TypeError. With a null sector, the sector that reaches the exclusion test is null, the
  test raises TypeError, and the ticker is dropped although it meets all seven
  predicates under the specification's defaults.
\<close>

theorem C6_null_reaches_comparison:
  "extract_fields (sample_bundle (JNum 0) JNull (JStr ''Technology'')) =
     Inr \<lparr>price = JNum 50, vol = JNull, cap = JNum 5000000000, sector = JStr ''Technology'',
          curr_ratio = JNum 2, op_margins = JNum 0.2, pe = JNum 10\<rparr>
   \<and> screen_symbol_body sample_config ''ABC'' (sample_bundle (JNum 0) JNull (JStr ''Technology''))
       = Inl TypeError
   \<and> extract_fields (sample_bundle (JNum 1000000) (JNum 900000) JNull) =
     Inr \<lparr>price = JNum 50, vol = JNum 1000000, cap = JNum 5000000000, sector = JNull,
          curr_ratio = JNum 2, op_margins = JNum 0.2, pe = JNum 10\<rparr>
   \<and> screen_symbol_body sample_config ''ABC'' (sample_bundle (JNum 1000000) (JNum 900000) JNull)
       = Inl TypeError
   \<and> screen_symbol sample_config ''ABC'' (sample_bundle (JNum 1000000) (JNum 900000) JNull)
       = None
   \<and> spec_survives sample_config (sample_bundle (JNum 1000000) (JNum 900000) JNull)"
proof -
  have e1: "extract_fields (sample_bundle (JNum 0) JNull (JStr ''Technology'')) =
     Inr \<lparr>price = JNum 50, vol = JNull, cap = JNum 5000000000, sector = JStr ''Technology'',
          curr_ratio = JNum 2, op_margins = JNum 0.2, pe = JNum 10\<rparr>"
    by (simp add: extract_fields_def get2_def and_then_def sample_bundle_def none_to_zero_def)
  have b1: "screen_symbol_body sample_config ''ABC''
      (sample_bundle (JNum 0) JNull (JStr ''Technology'')) = Inl TypeError"
    by (simp add: screen_symbol_body_def e1 passes_filters_def and_then_def sample_config_def)
  have e2: "extract_fields (sample_bundle (JNum 1000000) (JNum 900000) JNull) =
     Inr \<lparr>price = JNum 50, vol = JNum 1000000, cap = JNum 5000000000, sector = JNull,
          curr_ratio = JNum 2, op_margins = JNum 0.2, pe = JNum 10\<rparr>"
    by (simp add: extract_fields_def get2_def and_then_def sample_bundle_def none_to_zero_def)
  have b2: "screen_symbol_body sample_config ''ABC''
      (sample_bundle (JNum 1000000) (JNum 900000) JNull) = Inl TypeError"
    by (simp add: screen_symbol_body_def e2 passes_filters_def and_then_def sample_config_def)
  have s2: "screen_symbol sample_config ''ABC''
      (sample_bundle (JNum 1000000) (JNum 900000) JNull) = None"
    by (simp add: screen_symbol_eq_body b2)
  have p2: "spec_survives sample_config (sample_bundle (JNum 1000000) (JNum 900000) JNull)"
    by (simp add: spec_survives_def spec_pe_ok_def spec_avg_volume_def spec_num_def
      spec_sector_def field_of_def sample_bundle_def sample_config_def)
  from e1 b1 e2 b2 s2 p2 show ?thesis by simp
qed

subsection \<open>Deep Analyzer\<close>

lemmas analyser_unfold =
  analyze_ticker_def skip_cached_def sample_fetch_def df_empty_def margin_block_def
  yearly_margins_def dropna_def series_mean_def standard_calculations_def and_then_def
  get_item_def interest_coverage_def return_on_capital_def calculate_altman_z_yfinance_def
  altman_z_body_def determine_tier_history_def fsub_def fgt_def fle_def fge_def
  round2_def round_half_even_def sample_deep_config_def sample_row_def healthy_fin_def
  no_revenue_fin_def loss_fin_def sample_bs_def Let_def








lemma margin_block_failure:
  "yearly_margins fin = Inl e \<or> yearly_margins fin = Inr [] \<Longrightarrow>
     margin_block threshold fin avg = (avg, False, False)"
  by (auto simp: margin_block_def)

text \<open>
  C3 at a run over two tickers. \<open>AAA\<close> has an average margin of 0.2. The margin block of
  \<open>BBB\<close>, processed next, raises KeyError (no revenue row) and sets both flags to false,
  but the variable \<open>avg_margin\<close> still holds the value of \<open>AAA\<close>, so that the row of \<open>BBB\<close>
  reports an average margin of 20 percent. Processed alone, \<open>BBB\<close> reports 0.
\<close>

theorem C3_stale_average_margin:
  "yearly_margins no_revenue_fin = Inl KeyError
   \<and> margin_block (FORTRESS_MARGIN_THRESHOLD sample_deep_config) no_revenue_fin
        (Some (Fin 0.2)) = (Some (Fin 0.2), False, False)
   \<and> map Ticker (fst (get_advanced_metrics [sample_row ''AAA'', sample_row ''BBB'']
        sample_deep_config sample_fetch 1000 Map.empty)) = [''AAA'', ''BBB'']
   \<and> map Avg_Margin_4Y (fst (get_advanced_metrics [sample_row ''AAA'', sample_row ''BBB'']
        sample_deep_config sample_fetch 1000 Map.empty)) = [Fin 20, Fin 20]
   \<and> map Avg_Margin_4Y (fst (get_advanced_metrics [sample_row ''BBB'']
        sample_deep_config sample_fetch 1000 Map.empty)) = [Fin 0]"
proof -
  have 1: "yearly_margins no_revenue_fin = Inl KeyError"
    by (simp add: yearly_margins_def no_revenue_fin_def)
  then have 2: "margin_block (FORTRESS_MARGIN_THRESHOLD sample_deep_config) no_revenue_fin
        (Some (Fin 0.2)) = (Some (Fin 0.2), False, False)"
    by (simp add: margin_block_def)
  have 3: "map Ticker (fst (get_advanced_metrics [sample_row ''AAA'', sample_row ''BBB'']
        sample_deep_config sample_fetch 1000 Map.empty)) = [''AAA'', ''BBB'']"
    by (simp add: get_advanced_metrics_def analyser_unfold)
  have 4: "map Avg_Margin_4Y (fst (get_advanced_metrics [sample_row ''AAA'', sample_row ''BBB'']
        sample_deep_config sample_fetch 1000 Map.empty)) = [Fin 20, Fin 20]"
    by (simp add: get_advanced_metrics_def analyser_unfold)
  have 5: "map Avg_Margin_4Y (fst (get_advanced_metrics [sample_row ''BBB'']
        sample_deep_config sample_fetch 1000 Map.empty)) = [Fin 0]"
    by (simp add: get_advanced_metrics_def analyser_unfold)
  from 1 2 3 4 5 show ?thesis by simp
qed

lemma failed_ticker_keeps_cache:
  "fetch ticker = Unavailable \<or> fetch ticker = Statements [] bs
     \<or> fetch ticker = Statements fin [] \<Longrightarrow>
   analyze_ticker cfg fetch now survivor_df st ticker = st"
  by (auto simp: analyze_ticker_def df_empty_def)

text \<open>
  C2 at a run over two failing tickers and an empty cache: for \<open>CCC\<close> the fetch raises,
  for \<open>DDD\<close> the provider returns empty tables. Neither is in the output, and the cache
  handed to \<open>save_cache\<close> is still empty: it holds no entry with \<open>roic = -999\<close> for
  either, and a run one second later does not skip them. Had the run stored a sentinel
  entry for \<open>CCC\<close>, the later run would have skipped it.
\<close>

theorem C2_failure_leaves_no_sentinel:
  "sample_fetch ''CCC'' = Unavailable
   \<and> sample_fetch ''DDD'' = Statements [] []
   \<and> get_advanced_metrics [sample_row ''CCC'', sample_row ''DDD''] sample_deep_config
        sample_fetch 1000 Map.empty = ([], Map.empty)
   \<and> \<not> skip_cached (snd (get_advanced_metrics [sample_row ''CCC'', sample_row ''DDD'']
          sample_deep_config sample_fetch 1000 Map.empty)) ''CCC'' 1001
          (CACHE_EXPIRY_DAYS sample_deep_config * 86400)
   \<and> \<not> skip_cached (snd (get_advanced_metrics [sample_row ''CCC'', sample_row ''DDD'']
          sample_deep_config sample_fetch 1000 Map.empty)) ''DDD'' 1001
          (CACHE_EXPIRY_DAYS sample_deep_config * 86400)
   \<and> skip_cached
        [''CCC'' \<mapsto> \<lparr>timestamp = 1000, z_score = Fin 0, roic = Fin (- 999), int_cov = Fin 0\<rparr>]
        ''CCC'' 1001 (CACHE_EXPIRY_DAYS sample_deep_config * 86400)"
proof -
  have run: "get_advanced_metrics [sample_row ''CCC'', sample_row ''DDD''] sample_deep_config
        sample_fetch 1000 Map.empty = ([], Map.empty)"
    by (simp add: get_advanced_metrics_def analyser_unfold)
  show ?thesis
    by (simp add: run)
       (simp add: sample_fetch_def skip_cached_def is_fresh_def sample_deep_config_def)
qed

subsection \<open>Trend Filter\<close>

lemma foldl_fadd_Fin: "foldl fadd (Fin a) (map Fin rs) = Fin (a + sum_list rs)"
  by (induction rs arbitrary: a) (simp_all add: add.assoc)

lemma sma_200_finite:
  "sma_200_of (map Fin rs) =
     (if length rs < 200 then NaN else Fin (sum_list (drop (length rs - 200) rs) / 200))"
  by (simp add: sma_200_of_def drop_map foldl_fadd_Fin)


lemma trend_metrics_closes:
  "trend_metrics (Closes cs) =
     Inr (if 200 \<le> length cs \<and> fgt (last cs) (sma_200_of cs)
          then Some (fround2 (sma_200_of cs),
                 fround2 (fmul (fdiv (fsub (last cs) (sma_200_of cs)) (sma_200_of cs)) (Fin 100)))
          else None)"
  by (simp add: trend_metrics_def and_then_def Let_def)


lemma insert_by_dist_set: "set (insert_by_dist r xs) = insert r (set xs)"
  by (induction xs) auto

lemma sort_by_dist_set: "set (sort_by_dist xs) = set xs"
  by (induction xs) (simp_all add: sort_by_dist_def insert_by_dist_set)

lemma find_ticker:
  "t \<in> Ticker ` set df \<Longrightarrow> \<exists>r. find (\<lambda>r. Ticker r = t) df = Some r \<and> Ticker r = t \<and> r \<in> set df"
  by (induction df) auto

lemma trend_entry_Some:
  assumes "t \<in> Ticker ` set df"
  shows "trend_entry df downloaded t = Some row \<longleftrightarrow>
     (\<exists>s d r. ticker_outcome (length df) downloaded t = Inr (Some (s, d))
        \<and> find (\<lambda>r. Ticker r = t) df = Some r
        \<and> row = \<lparr>base_row = r, SMA_200 = s, Trend_Dist_pct = d\<rparr>)"
  using find_ticker [OF assms]
  by (auto simp: trend_entry_def split: sum.splits option.splits prod.splits)

lemma uptrend_rows:
  assumes "df \<noteq> []" "downloaded \<noteq> DownloadError"
  shows "\<exists>rows. apply_trend_alignment df downloaded = Uptrend rows
     \<and> set rows = {row. \<exists>t \<in> Ticker ` set df. trend_entry df downloaded t = Some row}"
proof -
  let ?rows = "sort_by_dist (List.map_filter (trend_entry df downloaded) (map Ticker df))"
  from assms have "apply_trend_alignment df downloaded = Uptrend ?rows"
    by (cases downloaded) (simp_all add: apply_trend_alignment_def)
  moreover have "set ?rows = {row. \<exists>t \<in> Ticker ` set df. trend_entry df downloaded t = Some row}"
    by (auto simp: sort_by_dist_set set_map_filter)
  ultimately show ?thesis by blast
qed

lemma uptrend_tickers:
  assumes "df \<noteq> []" "downloaded \<noteq> DownloadError"
  shows "result_tickers (apply_trend_alignment df downloaded) =
     {t \<in> Ticker ` set df. \<exists>v. ticker_outcome (length df) downloaded t = Inr (Some v)}"
proof -
  from uptrend_rows [OF assms] obtain rows where
    a: "apply_trend_alignment df downloaded = Uptrend rows"
    and r: "set rows = {row. \<exists>t \<in> Ticker ` set df. trend_entry df downloaded t = Some row}"
    by blast
  have "(\<lambda>r. Ticker (base_row r)) ` set rows =
      {t \<in> Ticker ` set df. \<exists>v. ticker_outcome (length df) downloaded t = Inr (Some v)}"
  proof (intro set_eqI iffI)
    fix t assume "t \<in> (\<lambda>r. Ticker (base_row r)) ` set rows"
    then obtain row where row: "row \<in> set rows" and t: "t = Ticker (base_row row)" by blast
    from row r obtain u where u: "u \<in> Ticker ` set df"
      and e: "trend_entry df downloaded u = Some row" by blast
    from e obtain s d b where o: "ticker_outcome (length df) downloaded u = Inr (Some (s, d))"
      and f: "find (\<lambda>r. Ticker r = u) df = Some b"
      and rw: "row = \<lparr>base_row = b, SMA_200 = s, Trend_Dist_pct = d\<rparr>"
      unfolding trend_entry_Some [OF u] by blast
    from find_ticker [OF u] f have "Ticker b = u" by auto
    with rw t have "t = u" by simp
    with u o show "t \<in> {t \<in> Ticker ` set df. \<exists>v. ticker_outcome (length df) downloaded t = Inr (Some v)}"
      by blast
  next
    fix t assume "t \<in> {t \<in> Ticker ` set df. \<exists>v. ticker_outcome (length df) downloaded t = Inr (Some v)}"
    then obtain s d where u: "t \<in> Ticker ` set df"
      and o: "ticker_outcome (length df) downloaded t = Inr (Some (s, d))" by auto
    from find_ticker [OF u] obtain b where f: "find (\<lambda>r. Ticker r = t) df = Some b"
      and tb: "Ticker b = t" by blast
    let ?row = "\<lparr>base_row = b, SMA_200 = s, Trend_Dist_pct = d\<rparr>"
    from o f have "trend_entry df downloaded t = Some ?row"
      unfolding trend_entry_Some [OF u] by blast
    with u r have "?row \<in> set rows" by blast
    with tb show "t \<in> (\<lambda>r. Ticker (base_row r)) ` set rows" by force
  qed
  with a show ?thesis by simp
qed




lemma rising_sma: "sma_200_of rising_closes = Fin (1001 / 100)"
  by (simp add: rising_closes_def sma_200_finite sum_list_replicate del: map_append)

lemma rising_last: "last rising_closes = Fin 12"
  by (simp add: rising_closes_def)


text \<open>
  C8. When the download raises, the filter returns its input table as it is. Otherwise
  the result holds exactly the input tickers whose own block ends with an uptrend, each
  with its input row and the two new columns: a ticker whose block raises is left out,
  and it changes nothing for any other ticker.
\<close>

theorem C8_trend_failure_handling:
  "apply_trend_alignment df DownloadError = Unfiltered df
   \<and> (df \<noteq> [] \<and> downloaded \<noteq> DownloadError \<longrightarrow>
        (ticker_outcome (length df) downloaded t = Inl e \<longrightarrow>
           t \<notin> result_tickers (apply_trend_alignment df downloaded))
      \<and> result_tickers (apply_trend_alignment df downloaded) =
          {u \<in> Ticker ` set df.
             \<exists>v. ticker_outcome (length df) downloaded u = Inr (Some v)}
      \<and> (\<exists>rows. apply_trend_alignment df downloaded = Uptrend rows
           \<and> set rows =
               {row. \<exists>u \<in> Ticker ` set df. trend_entry df downloaded u = Some row}))"
proof (intro conjI impI)
  show "apply_trend_alignment df DownloadError = Unfiltered df"
    by (simp add: apply_trend_alignment_def)
next
  assume h: "df \<noteq> [] \<and> downloaded \<noteq> DownloadError"
    and e: "ticker_outcome (length df) downloaded t = Inl e"
  from h have "result_tickers (apply_trend_alignment df downloaded) =
          {u \<in> Ticker ` set df.
             \<exists>v. ticker_outcome (length df) downloaded u = Inr (Some v)}"
    by (simp add: uptrend_tickers)
  with e show "t \<notin> result_tickers (apply_trend_alignment df downloaded)" by simp
next
  assume h: "df \<noteq> [] \<and> downloaded \<noteq> DownloadError"
  then show "result_tickers (apply_trend_alignment df downloaded) =
          {u \<in> Ticker ` set df.
             \<exists>v. ticker_outcome (length df) downloaded u = Inr (Some v)}"
    by (simp add: uptrend_tickers)
next
  assume h: "df \<noteq> [] \<and> downloaded \<noteq> DownloadError"
  then show "\<exists>rows. apply_trend_alignment df downloaded = Uptrend rows
           \<and> set rows =
               {row. \<exists>u \<in> Ticker ` set df. trend_entry df downloaded u = Some row}"
    by (intro uptrend_rows) simp_all
qed

theorem C8_trend_failure_handling_witness:
  "apply_trend_alignment two_rows DownloadError = Unfiltered two_rows
   \<and> ticker_outcome (length two_rows) sample_prices ''BBB'' = Inl KeyError
   \<and> ''BBB'' \<notin> result_tickers (apply_trend_alignment two_rows sample_prices)
   \<and> result_tickers (apply_trend_alignment two_rows sample_prices) = {''AAA''}"
proof -
  have ne: "two_rows \<noteq> [] \<and> sample_prices \<noteq> DownloadError"
    by (simp add: two_rows_def sample_prices_def)
  have b: "ticker_outcome (length two_rows) sample_prices ''BBB'' = Inl KeyError"
    by (simp add: ticker_outcome_def ticker_history_def trend_metrics_def and_then_def
        two_rows_def sample_prices_def)
  have a: "ticker_outcome (length two_rows) sample_prices ''AAA'' =
      Inr (Some (Fin (1001 / 100), Fin (1988 / 100)))"
    by (simp add: ticker_outcome_def ticker_history_def and_then_def two_rows_def
        sample_prices_def trend_metrics_closes rising_sma rising_last fgt_Fin fsub_def
        round2_def round_half_even_def)
      (simp add: rising_closes_def)
  note c8 = C8_trend_failure_handling [where df = two_rows and downloaded = sample_prices
      and t = "''BBB''" and e = KeyError]
  from c8 have 1: "apply_trend_alignment two_rows DownloadError = Unfiltered two_rows"
    by blast
  from c8 ne b have 2: "''BBB'' \<notin> result_tickers (apply_trend_alignment two_rows sample_prices)"
    by blast
  from c8 ne have "result_tickers (apply_trend_alignment two_rows sample_prices) =
      {u \<in> Ticker ` set two_rows.
         \<exists>v. ticker_outcome (length two_rows) sample_prices u = Inr (Some v)}"
    by blast
  also have "\<dots> = {''AAA''}"
    using a b by (auto simp: two_rows_def)
  finally have 3: "result_tickers (apply_trend_alignment two_rows sample_prices) = {''AAA''}" .
  from 1 b 2 3 show ?thesis by simp
qed

end
